theory Spec2Isabelle
  imports Complex_Main
begin

section \<open>Numbers and vectors\<close>

text \<open>
  A JavaScript number is modelled as a real: rounding is not modelled. The one place
  where the reals and JavaScript part ways in this program is division by zero, which
  gives \<open>Infinity\<close> or \<open>NaN\<close> in JavaScript and \<open>0\<close> in HOL. Every division of the source
  whose divisor can be zero therefore goes through \<open>js_div\<close>, whose result \<open>NonFinite\<close>
  stands for \<open>Infinity\<close>, \<open>-Infinity\<close> and \<open>NaN\<close>. Scaling by a constant and adding keep a
  number of that kind non-finite. The spin of a mesh, which nothing reads back, is
  kept as such a number. A position or a velocity that is not finite is outside the
  model: the step that would compute it returns \<open>None\<close> as a whole.
\<close>

datatype num = Finite real | NonFinite

definition js_div :: "real \<Rightarrow> real \<Rightarrow> num" where
  "js_div a b = (if b = 0 then NonFinite else Finite (a / b))"

definition js_scale :: "num \<Rightarrow> real \<Rightarrow> num" where
  "js_scale a c = (case a of Finite r \<Rightarrow> Finite (r * c) | NonFinite \<Rightarrow> NonFinite)"

definition js_add :: "num \<Rightarrow> num \<Rightarrow> num" where
  "js_add a b =
     (case (a, b) of (Finite r, Finite s) \<Rightarrow> Finite (r + s) | _ \<Rightarrow> NonFinite)"

text \<open>\<open>THREE.Vector3\<close> with the methods the program calls.\<close>

record vec3 =
  vx :: real
  vy :: real
  vz :: real

definition vec :: "real \<Rightarrow> real \<Rightarrow> real \<Rightarrow> vec3" where
  "vec a b c = \<lparr>vx = a, vy = b, vz = c\<rparr>"

definition v_zero :: vec3 where
  "v_zero = vec 0 0 0"

definition addVectors :: "vec3 \<Rightarrow> vec3 \<Rightarrow> vec3" where
  "addVectors a b = vec (vx a + vx b) (vy a + vy b) (vz a + vz b)"

definition subVectors :: "vec3 \<Rightarrow> vec3 \<Rightarrow> vec3" where
  "subVectors a b = vec (vx a - vx b) (vy a - vy b) (vz a - vz b)"

definition multiplyScalar :: "vec3 \<Rightarrow> real \<Rightarrow> vec3" where
  "multiplyScalar a s = vec (vx a * s) (vy a * s) (vz a * s)"

definition v_length :: "vec3 \<Rightarrow> real" where
  "v_length a = sqrt (vx a * vx a + vy a * vy a + vz a * vz a)"

text \<open>\<open>normalize\<close> divides by \<open>length() || 1\<close>: the zero vector stays as it is.\<close>

definition normalize :: "vec3 \<Rightarrow> vec3" where
  "normalize a =
     (let l = (if v_length a = 0 then 1 else v_length a)
      in vec (vx a / l) (vy a / l) (vz a / l))"

definition distanceTo :: "vec3 \<Rightarrow> vec3 \<Rightarrow> real" where
  "distanceTo a b = v_length (subVectors a b)"

definition lerpVectors :: "vec3 \<Rightarrow> vec3 \<Rightarrow> real \<Rightarrow> vec3" where
  "lerpVectors v1 v2 alpha =
     vec (vx v1 + (vx v2 - vx v1) * alpha)
         (vy v1 + (vy v2 - vy v1) * alpha)
         (vz v1 + (vz v2 - vz v1) * alpha)"

text \<open>\<open>THREE.Quaternion\<close> and \<open>THREE.Euler\<close> (order \<open>YXZ\<close>, as the flight controls build it).\<close>

record quat =
  qx :: real
  qy :: real
  qz :: real
  qw :: real

record euler =
  ex :: real
  ey :: real
  ez :: real

definition setFromEuler :: "euler \<Rightarrow> quat" where
  "setFromEuler e =
     (let c1 = cos (ex e / 2); c2 = cos (ey e / 2); c3 = cos (ez e / 2);
          s1 = sin (ex e / 2); s2 = sin (ey e / 2); s3 = sin (ez e / 2)
      in \<lparr>qx = s1 * c2 * c3 + c1 * s2 * s3,
          qy = c1 * s2 * c3 - s1 * c2 * s3,
          qz = c1 * c2 * s3 - s1 * s2 * c3,
          qw = c1 * c2 * c3 + s1 * s2 * s3\<rparr>)"

definition applyQuaternion :: "vec3 \<Rightarrow> quat \<Rightarrow> vec3" where
  "applyQuaternion v q =
     (let tx = 2 * (qy q * vz v - qz q * vy v);
          ty = 2 * (qz q * vx v - qx q * vz v);
          tz = 2 * (qx q * vy v - qy q * vx v)
      in vec (vx v + qw q * tx + qy q * tz - qz q * ty)
             (vy v + qw q * ty + qz q * tx - qx q * tz)
             (vz v + qw q * tz + qx q * ty - qy q * tx))"

text \<open>
  The two orientation routines of three.js that the focus controls call
  (\<open>Matrix4.lookAt\<close> followed by \<open>setFromRotationMatrix\<close>, and \<open>Quaternion.slerp\<close>)
  are parameters of the model: no property below depends on what they compute.
\<close>

record three_lib =
  lookAtQuaternion :: "vec3 \<Rightarrow> vec3 \<Rightarrow> quat"
  slerp :: "quat \<Rightarrow> quat \<Rightarrow> real \<Rightarrow> quat"

record camera =
  cam_position :: vec3
  cam_quaternion :: quat

section \<open>utils/math.ts\<close>

definition lerp :: "real \<Rightarrow> real \<Rightarrow> real \<Rightarrow> real" where
  "lerp start end' t = start + (end' - start) * t"

definition clamp :: "real \<Rightarrow> real \<Rightarrow> real \<Rightarrow> real" where
  "clamp val lo hi = max lo (min hi val)"

text \<open>\<open>damp\<close> divides by \<open>smoothTime\<close>; a zero \<open>smoothTime\<close> gives no finite result.\<close>

definition damp :: "real \<Rightarrow> real \<Rightarrow> real \<Rightarrow> real \<Rightarrow> real option" where
  "damp current target smoothTime deltaTime =
     (case js_div (- deltaTime) smoothTime of
        NonFinite \<Rightarrow> None
      | Finite q \<Rightarrow> Some (lerp current target (1 - exp q)))"

section \<open>scene/createSolarSystem.ts\<close>

text \<open>
  \<open>PlanetData\<close>. A moon is a \<open>PlanetData\<close> too; no function of the program reads the
  moons of a moon, so a moon is the record without the \<open>moons\<close> field. Of a mesh the
  model keeps the position and the rotation; the Sun, the textures, the labels, the
  orbit lines and the rings are drawn and never read back, and are left out.
\<close>

record mesh3 =
  mesh_position :: vec3
  rotation_y :: num
  rotation_z :: real

record body =
  name :: string
  radius :: real
  orbitRadius :: real
  orbitPeriod :: real
  rotationPeriod :: real
  tilt :: real
  mesh :: "mesh3 option"
  position :: "vec3 option"

record PlanetData = body +
  moons :: "body list option"

text \<open>\<open>createPlanet\<close>: builds the mesh and sets the initial position.\<close>

definition createPlanet :: "'a body_scheme \<Rightarrow> 'a body_scheme" where
  "createPlanet planetData =
     (let p = vec (orbitRadius planetData) 0 0
      in planetData\<lparr>position := Some p,
           mesh := Some \<lparr>mesh_position = p, rotation_y = Finite 0,
                          rotation_z = (tilt planetData * pi) / 180\<rparr>\<rparr>)"

text \<open>
  The loop of \<open>createSolarSystem\<close> over \<open>planetsData\<close>, with the list as its argument
  (the source writes it as a literal, to which the project's guide adds bodies).
\<close>

definition createSolarSystem :: "PlanetData list \<Rightarrow> PlanetData list" where
  "createSolarSystem planetsData =
     map (\<lambda>planetData.
            (createPlanet planetData)\<lparr>moons :=
               (case moons planetData of
                  None \<Rightarrow> None
                | Some ms \<Rightarrow> Some (map createPlanet ms))\<rparr>)
         planetsData"

text \<open>\<open>updateSolarSystem\<close>: the body of the inner loop, for one moon.\<close>

definition updateMoon :: "real \<Rightarrow> vec3 \<Rightarrow> body \<Rightarrow> body option" where
  "updateMoon time parentPosition moonData =
     (case mesh moonData of
        None \<Rightarrow> Some moonData
      | Some m \<Rightarrow>
          (case js_div time (orbitPeriod moonData) of
             NonFinite \<Rightarrow> None
           | Finite q \<Rightarrow>
               (let moonAngle = q * 0.1;
                    moonLocalPos = vec (cos moonAngle * orbitRadius moonData) 0
                                       (sin moonAngle * orbitRadius moonData);
                    pos = addVectors parentPosition moonLocalPos
                in Some (moonData\<lparr>position := Some pos,
                           mesh := Some (m\<lparr>mesh_position := pos,
                                           rotation_y :=
                                             js_add (rotation_y m)
                                               (js_scale (js_div 1 (rotationPeriod moonData))
                                                  0.01)\<rparr>)\<rparr>))))"

fun updateMoons :: "real \<Rightarrow> vec3 \<Rightarrow> body list \<Rightarrow> body list option" where
  "updateMoons time parentPosition [] = Some []"
| "updateMoons time parentPosition (moonData # rest) =
     (case updateMoon time parentPosition moonData of
        None \<Rightarrow> None
      | Some moonData' \<Rightarrow>
          (case updateMoons time parentPosition rest of
             None \<Rightarrow> None
           | Some rest' \<Rightarrow> Some (moonData' # rest')))"

text \<open>The body of the outer loop, for one planet.\<close>

definition updatePlanet :: "real \<Rightarrow> PlanetData \<Rightarrow> PlanetData option" where
  "updatePlanet time planetData =
     (case mesh planetData of
        None \<Rightarrow> Some planetData
      | Some m \<Rightarrow>
          (case js_div time (orbitPeriod planetData) of
             NonFinite \<Rightarrow> None
           | Finite q \<Rightarrow>
               (let angle = q * 0.1;
                    pos = vec (cos angle * orbitRadius planetData) 0
                              (sin angle * orbitRadius planetData);
                    rotationSpeed = (if rotationPeriod planetData \<noteq> 0
                                     then (1 / rotationPeriod planetData) * 0.01 else 0);
                    planetData' = planetData\<lparr>position := Some pos,
                                    mesh := Some (m\<lparr>mesh_position := pos,
                                                    rotation_y :=
                                                      js_add (rotation_y m)
                                                        (Finite rotationSpeed)\<rparr>)\<rparr>
                in (case moons planetData of
                      None \<Rightarrow> Some planetData'
                    | Some ms \<Rightarrow>
                        (case updateMoons time pos ms of
                           None \<Rightarrow> None
                         | Some ms' \<Rightarrow> Some (planetData'\<lparr>moons := Some ms'\<rparr>))))))"

fun updateSolarSystem :: "PlanetData list \<Rightarrow> real \<Rightarrow> PlanetData list option" where
  "updateSolarSystem [] time = Some []"
| "updateSolarSystem (planetData # rest) time =
     (case updatePlanet time planetData of
        None \<Rightarrow> None
      | Some planetData' \<Rightarrow>
          (case updateSolarSystem rest time of
             None \<Rightarrow> None
           | Some rest' \<Rightarrow> Some (planetData' # rest')))"

section \<open>controls/flightControls.ts\<close>

text \<open>
  A callback is known by the identity of the function that was registered. What a
  handler does to the page, beyond the controller's own fields, is the list of effects
  it returns, in the order of the source.
\<close>

type_synonym callback = nat

datatype effect =
    Invoke callback
  | ConsoleError string
  | RequestPointerLock
  | ExitPointerLock
  | BodyClassAdd string
  | BodyClassRemove string

record FlightControls =
  moveForward :: bool
  moveBackward :: bool
  moveLeft :: bool
  moveRight :: bool
  moveUp :: bool
  moveDown :: bool
  boost :: bool
  velocity :: vec3
  direction :: vec3
  euler :: euler
  isLocked :: bool
  onLockCallback :: "callback option"
  onUnlockCallback :: "callback option"

text \<open>The speed settings and the mouse sensitivity: private fields that are never assigned.\<close>

definition baseSpeed :: real where "baseSpeed = 30"
definition boostMultiplier :: real where "boostMultiplier = 8"
definition acceleration :: real where "acceleration = 30"
definition damping :: real where "damping = 5"
definition mouseSensitivity :: real where "mouseSensitivity = 0.002"

definition onMouseMove :: "FlightControls \<Rightarrow> real \<Rightarrow> real \<Rightarrow> FlightControls" where
  "onMouseMove fc movementX movementY =
     (if \<not> isLocked fc then fc
      else
        (let e = euler fc;
             e1 = e\<lparr>ey := ey e - movementX * mouseSensitivity\<rparr>;
             e2 = e1\<lparr>ex := ex e1 - movementY * mouseSensitivity\<rparr>;
             e3 = e2\<lparr>ex := clamp (ex e2) (- pi / 2) (pi / 2)\<rparr>
         in fc\<lparr>euler := e3\<rparr>))"

text \<open>
  \<open>onPointerlockChange\<close>: the argument says whether \<open>document.pointerLockElement\<close> is
  the controller's element.
\<close>

definition onPointerlockChange :: "FlightControls \<Rightarrow> bool \<Rightarrow> FlightControls \<times> effect list" where
  "onPointerlockChange fc isThisElement =
     (let fc' = fc\<lparr>isLocked := isThisElement\<rparr>
      in if isLocked fc'
         then (fc', BodyClassAdd ''pointer-locked'' #
                    (case onLockCallback fc' of None \<Rightarrow> [] | Some cb \<Rightarrow> [Invoke cb]))
         else (fc', BodyClassRemove ''pointer-locked'' #
                    (case onUnlockCallback fc' of None \<Rightarrow> [] | Some cb \<Rightarrow> [Invoke cb])))"

definition onPointerlockError :: "FlightControls \<Rightarrow> FlightControls \<times> effect list" where
  "onPointerlockError fc = (fc, [ConsoleError ''Pointer lock failed''])"

definition onKeyDown :: "FlightControls \<Rightarrow> string \<Rightarrow> FlightControls" where
  "onKeyDown fc code =
     (if code = ''KeyW'' then fc\<lparr>moveForward := True\<rparr>
      else if code = ''KeyS'' then fc\<lparr>moveBackward := True\<rparr>
      else if code = ''KeyA'' then fc\<lparr>moveLeft := True\<rparr>
      else if code = ''KeyD'' then fc\<lparr>moveRight := True\<rparr>
      else if code = ''KeyQ'' then fc\<lparr>moveDown := True\<rparr>
      else if code = ''KeyE'' then fc\<lparr>moveUp := True\<rparr>
      else if code = ''ShiftLeft'' \<or> code = ''ShiftRight'' then fc\<lparr>boost := True\<rparr>
      else fc)"

definition onKeyUp :: "FlightControls \<Rightarrow> string \<Rightarrow> FlightControls" where
  "onKeyUp fc code =
     (if code = ''KeyW'' then fc\<lparr>moveForward := False\<rparr>
      else if code = ''KeyS'' then fc\<lparr>moveBackward := False\<rparr>
      else if code = ''KeyA'' then fc\<lparr>moveLeft := False\<rparr>
      else if code = ''KeyD'' then fc\<lparr>moveRight := False\<rparr>
      else if code = ''KeyQ'' then fc\<lparr>moveDown := False\<rparr>
      else if code = ''KeyE'' then fc\<lparr>moveUp := False\<rparr>
      else if code = ''ShiftLeft'' \<or> code = ''ShiftRight'' then fc\<lparr>boost := False\<rparr>
      else fc)"

definition lock :: "FlightControls \<Rightarrow> FlightControls \<times> effect list" where
  "lock fc = (fc, [RequestPointerLock])"

definition unlock :: "FlightControls \<Rightarrow> FlightControls \<times> effect list" where
  "unlock fc = (fc, [ExitPointerLock])"

text \<open>The direction commanded by the six movement flags, in camera-local space.\<close>

definition flagDirection :: "FlightControls \<Rightarrow> vec3" where
  "flagDirection fc =
     (let d0 = v_zero;
          d1 = (if moveForward fc then d0\<lparr>vz := vz d0 - 1\<rparr> else d0);
          d2 = (if moveBackward fc then d1\<lparr>vz := vz d1 + 1\<rparr> else d1);
          d3 = (if moveLeft fc then d2\<lparr>vx := vx d2 - 1\<rparr> else d2);
          d4 = (if moveRight fc then d3\<lparr>vx := vx d3 + 1\<rparr> else d3);
          d5 = (if moveUp fc then d4\<lparr>vy := vy d4 + 1\<rparr> else d4);
          d6 = (if moveDown fc then d5\<lparr>vy := vy d5 - 1\<rparr> else d5)
      in d6)"

text \<open>
  The first half of \<open>update\<close>: the target velocity, which is \<open>direction\<close> normalised,
  turned by the camera's quaternion and scaled in place by \<open>multiplyScalar\<close>.
\<close>

definition targetVelocityOf :: "FlightControls \<Rightarrow> vec3" where
  "targetVelocityOf fc =
     (let q = setFromEuler (euler fc);
          d = flagDirection fc;
          dn = (if v_length d > 0 then normalize d else d);
          dw = applyQuaternion dn q;
          speedMultiplier = (if boost fc then boostMultiplier else 1);
          targetSpeed = baseSpeed * speedMultiplier
      in multiplyScalar dw targetSpeed)"

text \<open>
  The damping factor is chosen on the length of \<open>direction\<close> after the scaling
  (\<open>targetVelocity\<close> is the same object as \<open>direction\<close>).
\<close>

definition dampingFactor :: "vec3 \<Rightarrow> real" where
  "dampingFactor dir = (if v_length dir > 0 then acceleration else damping)"

definition flight_update :: "FlightControls \<times> camera \<Rightarrow> real \<Rightarrow> (FlightControls \<times> camera) option" where
  "flight_update st deltaTime =
     (let fc = fst st; cam = snd st
      in if \<not> isLocked fc then Some st
         else
           (let targetVelocity = targetVelocityOf fc;
                k = dampingFactor targetVelocity;
                v = velocity fc
            in (case (damp (vx v) (vx targetVelocity) k deltaTime,
                      damp (vy v) (vy targetVelocity) k deltaTime,
                      damp (vz v) (vz targetVelocity) k deltaTime) of
                  (Some a, Some b, Some c) \<Rightarrow>
                    Some (fc\<lparr>velocity := vec a b c, direction := targetVelocity\<rparr>,
                          cam\<lparr>cam_quaternion := setFromEuler (euler fc),
                              cam_position :=
                                addVectors (cam_position cam)
                                  (multiplyScalar (vec a b c) deltaTime)\<rparr>)
                | _ \<Rightarrow> None)))"

definition getSpeed :: "FlightControls \<Rightarrow> real" where
  "getSpeed fc = v_length (velocity fc)"

definition onLock :: "FlightControls \<Rightarrow> callback \<Rightarrow> FlightControls" where
  "onLock fc cb = fc\<lparr>onLockCallback := Some cb\<rparr>"

definition onUnlock :: "FlightControls \<Rightarrow> callback \<Rightarrow> FlightControls" where
  "onUnlock fc cb = fc\<lparr>onUnlockCallback := Some cb\<rparr>"

definition disable :: "FlightControls \<Rightarrow> FlightControls" where
  "disable fc =
     fc\<lparr>moveForward := False, moveBackward := False, moveLeft := False,
        moveRight := False, moveUp := False, moveDown := False, boost := False,
        velocity := vec 0 0 0\<rparr>"

text \<open>A run of update ticks, stopping where a tick has no finite result.\<close>

fun flight_updates :: "FlightControls \<times> camera \<Rightarrow> real list \<Rightarrow> (FlightControls \<times> camera) option" where
  "flight_updates st [] = Some st"
| "flight_updates st (dt # dts) =
     (case flight_update st dt of None \<Rightarrow> None | Some st' \<Rightarrow> flight_updates st' dts)"

text \<open>A run of pointer-motion events, each a pair \<open>(movementX, movementY)\<close>.\<close>

fun mouseMoves :: "FlightControls \<Rightarrow> (real \<times> real) list \<Rightarrow> FlightControls" where
  "mouseMoves fc [] = fc"
| "mouseMoves fc (m # ms) = mouseMoves (onMouseMove fc (fst m) (snd m)) ms"

section \<open>controls/focusControls.ts\<close>

text \<open>
  The focus controls hold a reference to a \<open>PlanetData\<close> object that
  \<open>updateSolarSystem\<close> goes on mutating. A reference is the place of the object in
  the planet list: a planet by its index, a moon by the index of its planet and its own.
\<close>

datatype body_ref = PlanetRef nat | MoonRef nat nat

definition lookupBody :: "PlanetData list \<Rightarrow> body_ref \<Rightarrow> body option" where
  "lookupBody planets r =
     (case r of
        PlanetRef i \<Rightarrow> (if i < length planets then Some (body.truncate (planets ! i)) else None)
      | MoonRef i j \<Rightarrow>
          (if i < length planets
           then (case moons (planets ! i) of
                   None \<Rightarrow> None
                 | Some ms \<Rightarrow> (if j < length ms then Some (ms ! j) else None))
           else None))"

record FocusControls =
  targetPlanet :: "body_ref option"
  isFocused :: bool
  focusDistance :: real
  focusOffset :: vec3
  currentOffset :: vec3
  transitionProgress :: real
  orbitAngle :: real
  focus_orbitRadius :: real
  originalPosition :: vec3
  originalQuaternion :: quat

definition transitionSpeed :: real where "transitionSpeed = 2"
definition orbitSpeed :: real where "orbitSpeed = 0.3"

text \<open>\<open>Math.atan2\<close> on the reals.\<close>

definition atan2 :: "real \<Rightarrow> real \<Rightarrow> real" where
  "atan2 b a =
     (if a > 0 then arctan (b / a)
      else if a < 0 then (if b \<ge> 0 then arctan (b / a) + pi else arctan (b / a) - pi)
      else if b > 0 then pi / 2
      else if b < 0 then - pi / 2
      else 0)"

text \<open>
  \<open>focusOnPlanet\<close>. The argument is the reference and the list it points into; a
  reference that points at nothing cannot be built in the source and is treated as a
  body without position.
\<close>

definition focusOnPlanet ::
  "FocusControls \<times> camera \<Rightarrow> PlanetData list \<Rightarrow> body_ref \<Rightarrow> FocusControls \<times> camera" where
  "focusOnPlanet st planets r =
     (let fc = fst st; cam = snd st
      in (case lookupBody planets r of
            None \<Rightarrow> st
          | Some planet \<Rightarrow>
              (case (mesh planet, position planet) of
                 (Some m, Some p) \<Rightarrow>
                   (let directionToPlanet = normalize (subVectors p (cam_position cam));
                        r3 = radius planet * 3;
                        off = multiplyScalar directionToPlanet (- r3)
                    in (fc\<lparr>originalPosition := cam_position cam,
                            originalQuaternion := cam_quaternion cam,
                            targetPlanet := Some r,
                            isFocused := True,
                            transitionProgress := 0,
                            focus_orbitRadius := r3,
                            focusDistance := r3,
                            focusOffset := off,
                            currentOffset := off,
                            orbitAngle := atan2 (vx directionToPlanet) (vz directionToPlanet)\<rparr>,
                        cam))
               | _ \<Rightarrow> st)))"

text \<open>
  \<open>focusOnNearest\<close>. \<open>nearestDistance\<close> starts at \<open>Infinity\<close>, written \<open>None\<close>: every
  distance is below it.
\<close>

definition below :: "real \<Rightarrow> real option \<Rightarrow> bool" where
  "below d nearestDistance = (case nearestDistance of None \<Rightarrow> True | Some n \<Rightarrow> d < n)"

fun scanMoons ::
  "vec3 \<Rightarrow> nat \<Rightarrow> nat \<Rightarrow> body list \<Rightarrow> body_ref option \<times> real option
     \<Rightarrow> body_ref option \<times> real option" where
  "scanMoons c i j [] acc = acc"
| "scanMoons c i j (moon # rest) acc =
     (case position moon of
        None \<Rightarrow> scanMoons c i (Suc j) rest acc
      | Some p \<Rightarrow>
          (let moonDistance = distanceTo c p
           in if below moonDistance (snd acc)
              then scanMoons c i (Suc j) rest (Some (MoonRef i j), Some moonDistance)
              else scanMoons c i (Suc j) rest acc))"

fun scanPlanets ::
  "vec3 \<Rightarrow> nat \<Rightarrow> PlanetData list \<Rightarrow> body_ref option \<times> real option
     \<Rightarrow> body_ref option \<times> real option" where
  "scanPlanets c i [] acc = acc"
| "scanPlanets c i (planet # rest) acc =
     (case position planet of
        None \<Rightarrow> scanPlanets c (Suc i) rest acc
      | Some p \<Rightarrow>
          (let distance = distanceTo c p;
               acc1 = (if below distance (snd acc)
                       then (Some (PlanetRef i), Some distance) else acc);
               acc2 = (case moons planet of
                         None \<Rightarrow> acc1
                       | Some ms \<Rightarrow> scanMoons c i 0 ms acc1)
           in scanPlanets c (Suc i) rest acc2))"

definition focusOnNearest ::
  "FocusControls \<times> camera \<Rightarrow> PlanetData list \<Rightarrow> (FocusControls \<times> camera) \<times> body_ref option" where
  "focusOnNearest st planets =
     (let nearest = fst (scanPlanets (cam_position (snd st)) 0 planets (None, None))
      in (case nearest of
            None \<Rightarrow> (st, None)
          | Some r \<Rightarrow> (focusOnPlanet st planets r, Some r)))"

definition returnToFreeFlight :: "FocusControls \<Rightarrow> FocusControls" where
  "returnToFreeFlight fc =
     (if \<not> isFocused fc then fc else fc\<lparr>isFocused := False, targetPlanet := None\<rparr>)"

definition easeInOutCubic :: "real \<Rightarrow> real" where
  "easeInOutCubic t = (if t < 0.5 then 4 * t * t * t else 1 - ((- 2 * t + 2) ^ 3) / 2)"

text \<open>The position of the target, if there is a target and it has one.\<close>

definition targetPosition :: "FocusControls \<Rightarrow> PlanetData list \<Rightarrow> vec3 option" where
  "targetPosition fc planets =
     (case targetPlanet fc of
        None \<Rightarrow> None
      | Some r \<Rightarrow> (case lookupBody planets r of None \<Rightarrow> None | Some b \<Rightarrow> position b))"

definition focus_update ::
  "three_lib \<Rightarrow> FocusControls \<times> camera \<Rightarrow> PlanetData list \<Rightarrow> real \<Rightarrow> FocusControls \<times> camera" where
  "focus_update lib st planets deltaTime =
     (let fc = fst st; cam = snd st
      in if \<not> isFocused fc then st
         else
           (case targetPosition fc planets of
              None \<Rightarrow> st
            | Some tp \<Rightarrow>
                (let progress = min (transitionProgress fc + deltaTime * transitionSpeed) 1;
                     angle = orbitAngle fc + orbitSpeed * deltaTime;
                     orbitOffset = vec (sin angle * focus_orbitRadius fc)
                                       (focus_orbitRadius fc * 0.3)
                                       (cos angle * focus_orbitRadius fc);
                     idealPosition = addVectors tp orbitOffset;
                     pos = (if progress < 1
                            then lerpVectors (originalPosition fc) idealPosition
                                   (easeInOutCubic progress)
                            else lerpVectors (cam_position cam) idealPosition
                                   (1 - exp (- 5 * deltaTime)));
                     targetQuaternion = lookAtQuaternion lib pos tp
                 in (fc\<lparr>transitionProgress := progress, orbitAngle := angle\<rparr>,
                     cam\<lparr>cam_position := pos,
                         cam_quaternion :=
                           slerp lib (cam_quaternion cam) targetQuaternion
                             (1 - exp (- 8 * deltaTime))\<rparr>))))"

definition getDistanceToTarget :: "FocusControls \<Rightarrow> camera \<Rightarrow> PlanetData list \<Rightarrow> real" where
  "getDistanceToTarget fc cam planets =
     (case targetPosition fc planets of
        None \<Rightarrow> 0
      | Some tp \<Rightarrow> distanceTo (cam_position cam) tp)"

section \<open>main.ts\<close>

text \<open>What the last call of \<open>hud.update\<close> was given.\<close>

record hud_args =
  hud_speed :: real
  hud_isFocused :: bool
  hud_target :: "body_ref option"
  hud_distance :: real

record CosmosApp =
  camera :: camera
  flightControls :: FlightControls
  focusControls :: FocusControls
  solarSystem :: "PlanetData list"
  time :: real
  isRunning :: bool
  hud :: hud_args

text \<open>The controller that drives the camera in this frame, on the planets as they are.\<close>

definition updateControls :: "three_lib \<Rightarrow> CosmosApp \<Rightarrow> real \<Rightarrow> CosmosApp option" where
  "updateControls lib app deltaTime =
     (if isFocused (focusControls app)
      then (let st = focus_update lib (focusControls app, camera app) (solarSystem app) deltaTime
            in Some (app\<lparr>focusControls := fst st, camera := snd st\<rparr>))
      else (case flight_update (flightControls app, camera app) deltaTime of
              None \<Rightarrow> None
            | Some st \<Rightarrow> Some (app\<lparr>flightControls := fst st, camera := snd st\<rparr>)))"

definition updateBodies :: "CosmosApp \<Rightarrow> CosmosApp option" where
  "updateBodies app =
     (case updateSolarSystem (solarSystem app) (time app) of
        None \<Rightarrow> None
      | Some planets \<Rightarrow> Some (app\<lparr>solarSystem := planets\<rparr>))"

definition updateHud :: "CosmosApp \<Rightarrow> CosmosApp" where
  "updateHud app =
     (let focused = isFocused (focusControls app)
      in app\<lparr>hud :=
           \<lparr>hud_speed = (if focused then 0 else getSpeed (flightControls app)),
            hud_isFocused = focused,
            hud_target = targetPlanet (focusControls app),
            hud_distance =
              (if focused
               then getDistanceToTarget (focusControls app) (camera app) (solarSystem app)
               else 0)\<rparr>\<rparr>)"

text \<open>\<open>animate\<close>, one frame; \<open>deltaTime\<close> is what \<open>clock.getDelta()\<close> returns.\<close>

definition animate :: "three_lib \<Rightarrow> CosmosApp \<Rightarrow> real \<Rightarrow> CosmosApp option" where
  "animate lib app deltaTime =
     (if \<not> isRunning app then Some app
      else
        (let app1 = app\<lparr>time := time app + deltaTime\<rparr>
         in (case updateControls lib app1 deltaTime of
               None \<Rightarrow> None
             | Some app2 \<Rightarrow>
                 (case updateBodies app2 of
                    None \<Rightarrow> None
                  | Some app3 \<Rightarrow> Some (updateHud app3)))))"

section \<open>The properties, in the words of the specification\<close>

subsection \<open>Frame loop\<close>

text \<open>
  The order of the specification, to compare \<open>animate\<close> with: the bodies are
  recomputed before the controller runs.
\<close>

definition animate_spec :: "three_lib \<Rightarrow> CosmosApp \<Rightarrow> real \<Rightarrow> CosmosApp option" where
  "animate_spec lib app deltaTime =
     (if \<not> isRunning app then Some app
      else
        (let app1 = app\<lparr>time := time app + deltaTime\<rparr>
         in (case updateBodies app1 of
               None \<Rightarrow> None
             | Some app2 \<Rightarrow>
                 (case updateControls lib app2 deltaTime of
                    None \<Rightarrow> None
                  | Some app3 \<Rightarrow> Some (updateHud app3)))))"

subsection \<open>Body positions\<close>

text \<open>
  The orbit formula of the specification: the offset of a body from its parent at
  time \<open>t\<close>, with the angular scale that \<open>updateSolarSystem\<close> writes as \<open>0.1\<close>.
\<close>

definition angularScale :: real where "angularScale = 0.1"

definition orbitOffset :: "'a body_scheme \<Rightarrow> real \<Rightarrow> vec3" where
  "orbitOffset b t =
     (let angle = (t / orbitPeriod b) * angularScale
      in vec (orbitRadius b * cos angle) 0 (orbitRadius b * sin angle))"

text \<open>The position of the parent: the origin for a planet, the planet for a moon.\<close>

definition parentPosition :: "PlanetData list \<Rightarrow> real \<Rightarrow> body_ref \<Rightarrow> vec3 option" where
  "parentPosition ps t r =
     (case r of
        PlanetRef i \<Rightarrow> Some v_zero
      | MoonRef i j \<Rightarrow>
          (case lookupBody ps (PlanetRef i) of
             None \<Rightarrow> None
           | Some p \<Rightarrow> Some (addVectors v_zero (orbitOffset p t))))"

definition spec_position :: "PlanetData list \<Rightarrow> real \<Rightarrow> body_ref \<Rightarrow> vec3 option" where
  "spec_position ps t r =
     (case (parentPosition ps t r, lookupBody ps r) of
        (Some pp, Some b) \<Rightarrow> Some (addVectors pp (orbitOffset b t))
      | _ \<Rightarrow> None)"

text \<open>
  \<open>updateSolarSystem\<close> skips a planet without mesh together with its moons, and a
  moon without mesh: a body is updated when it and its parent have a mesh.
\<close>

definition hasMesh :: "PlanetData list \<Rightarrow> body_ref \<Rightarrow> bool" where
  "hasMesh ps r =
     (case r of
        PlanetRef i \<Rightarrow>
          (case lookupBody ps (PlanetRef i) of None \<Rightarrow> False | Some p \<Rightarrow> mesh p \<noteq> None)
      | MoonRef i j \<Rightarrow>
          (case (lookupBody ps (PlanetRef i), lookupBody ps (MoonRef i j)) of
             (Some p, Some m) \<Rightarrow> mesh p \<noteq> None \<and> mesh m \<noteq> None
           | _ \<Rightarrow> False))"

definition positionOf :: "PlanetData list \<Rightarrow> body_ref \<Rightarrow> vec3 option" where
  "positionOf ps r = (case lookupBody ps r of None \<Rightarrow> None | Some b \<Rightarrow> position b)"

definition spinOf :: "PlanetData list \<Rightarrow> body_ref \<Rightarrow> num option" where
  "spinOf ps r =
     (case lookupBody ps r of
        None \<Rightarrow> None
      | Some b \<Rightarrow> (case mesh b of None \<Rightarrow> None | Some m \<Rightarrow> Some (rotation_y m)))"

definition spinAfter :: "PlanetData list \<Rightarrow> real \<Rightarrow> body_ref \<Rightarrow> num option" where
  "spinAfter ps t r =
     (case updateSolarSystem ps t of None \<Rightarrow> None | Some ps' \<Rightarrow> spinOf ps' r)"

text \<open>Every planet and every moon has an orbit period other than zero.\<close>

definition orbitPeriodsNonzero :: "PlanetData list \<Rightarrow> bool" where
  "orbitPeriodsNonzero ps =
     list_all (\<lambda>p. orbitPeriod p \<noteq> 0
                 \<and> (case moons p of
                      None \<Rightarrow> True
                    | Some ms \<Rightarrow> list_all (\<lambda>m. orbitPeriod m \<noteq> 0) ms))
       ps"

text \<open>
  The frames of \<open>animate\<close> as the bodies see them: each frame adds its delta to the
  clock and calls \<open>updateSolarSystem\<close> with the new time.
\<close>

fun advance :: "PlanetData list \<Rightarrow> real \<Rightarrow> real list \<Rightarrow> (PlanetData list \<times> real) option" where
  "advance ps t [] = Some (ps, t)"
| "advance ps t (dt # dts) =
     (case updateSolarSystem ps (t + dt) of
        None \<Rightarrow> None
      | Some ps' \<Rightarrow> advance ps' (t + dt) dts)"

text \<open>What an update leaves as it is: the orbital parameters and the presence of a mesh.\<close>

definition sameBody :: "'a body_scheme \<Rightarrow> 'b body_scheme \<Rightarrow> bool" where
  "sameBody b b' =
     (orbitRadius b' = orbitRadius b \<and> orbitPeriod b' = orbitPeriod b
      \<and> rotationPeriod b' = rotationPeriod b \<and> (mesh b' = None \<longleftrightarrow> mesh b = None))"

definition samePlanet :: "PlanetData \<Rightarrow> PlanetData \<Rightarrow> bool" where
  "samePlanet p p' = (sameBody p p' \<and> rel_option (list_all2 sameBody) (moons p) (moons p'))"

subsection \<open>Nearest body\<close>

text \<open>
  Every top-level body followed by its satellites, in the order of the two loops of
  \<open>focusOnNearest\<close>, each with its reference.
\<close>

fun moonBodies :: "nat \<Rightarrow> nat \<Rightarrow> body list \<Rightarrow> (body_ref \<times> body) list" where
  "moonBodies i j [] = []"
| "moonBodies i j (m # ms) = (MoonRef i j, m) # moonBodies i (Suc j) ms"

fun allBodiesFrom :: "nat \<Rightarrow> PlanetData list \<Rightarrow> (body_ref \<times> body) list" where
  "allBodiesFrom i [] = []"
| "allBodiesFrom i (p # ps) =
     (PlanetRef i, body.truncate p)
       # (case moons p of None \<Rightarrow> [] | Some ms \<Rightarrow> moonBodies i 0 ms)
       @ allBodiesFrom (Suc i) ps"

definition allBodies :: "PlanetData list \<Rightarrow> (body_ref \<times> body) list" where
  "allBodies ps = allBodiesFrom 0 ps"

definition allPositioned :: "PlanetData list \<Rightarrow> bool" where
  "allPositioned ps = list_all (\<lambda>rb. position (snd rb) \<noteq> None) (allBodies ps)"

definition distanceToBody :: "vec3 \<Rightarrow> body \<Rightarrow> real" where
  "distanceToBody c b = distanceTo c (the (position b))"

text \<open>One step of the scan: a strictly smaller distance replaces the nearest so far.\<close>

definition pick ::
  "body_ref option \<times> real option \<Rightarrow> body_ref \<times> real \<Rightarrow> body_ref option \<times> real option" where
  "pick acc rd = (if below (snd rd) (snd acc) then (Some (fst rd), Some (snd rd)) else acc)"

subsection \<open>Free flight\<close>

text \<open>No direction is commanded and the velocity is zero.\<close>

definition at_rest :: "FlightControls \<Rightarrow> bool" where
  "at_rest fc = (flagDirection fc = v_zero \<and> velocity fc = v_zero)"

section \<open>Example states\<close>

definition exampleFlight :: FlightControls where
  "exampleFlight =
     \<lparr>moveForward = False, moveBackward = False, moveLeft = False, moveRight = False,
      moveUp = False, moveDown = False, boost = False,
      velocity = vec 0 0 0, direction = vec 0 0 0,
      euler = \<lparr>ex = 0, ey = 0, ez = 0\<rparr>,
      isLocked = False, onLockCallback = None, onUnlockCallback = None\<rparr>"

definition exampleFlightForward :: FlightControls where
  "exampleFlightForward = exampleFlight\<lparr>moveForward := True, isLocked := True\<rparr>"

definition exampleFlightCallbacks :: FlightControls where
  "exampleFlightCallbacks = onUnlock (onLock exampleFlight 1) 2"

definition exampleCamera :: camera where
  "exampleCamera = \<lparr>cam_position = vec 0 0 0,
                     cam_quaternion = \<lparr>qx = 0, qy = 0, qz = 0, qw = 1\<rparr>\<rparr>"

definition exampleMoon :: body where
  "exampleMoon =
     \<lparr>name = ''Moon'', radius = 1 / 4, orbitRadius = 2, orbitPeriod = 1 / 2,
      rotationPeriod = 2, tilt = 0, mesh = None, position = None\<rparr>"

definition exampleEarth :: PlanetData where
  "exampleEarth =
     \<lparr>name = ''Earth'', radius = 1, orbitRadius = 10, orbitPeriod = 1,
      rotationPeriod = 1, tilt = 0, mesh = None, position = None,
      moons = Some [exampleMoon]\<rparr>"

definition examplePlanets :: "PlanetData list" where
  "examplePlanets = createSolarSystem [exampleEarth]"

text \<open>A body that orbits backwards and does not spin.\<close>

definition exampleRetro :: PlanetData where
  "exampleRetro =
     \<lparr>name = ''Retro'', radius = 1, orbitRadius = 5, orbitPeriod = - 1,
      rotationPeriod = 0, tilt = 0, mesh = None, position = None,
      moons = None\<rparr>"

definition exampleFocus :: FocusControls where
  "exampleFocus =
     \<lparr>targetPlanet = None, isFocused = False, focusDistance = 0,
      focusOffset = vec 0 0 0, currentOffset = vec 0 0 0,
      transitionProgress = 0, orbitAngle = 0, focus_orbitRadius = 0,
      originalPosition = vec 0 0 0,
      originalQuaternion = \<lparr>qx = 0, qy = 0, qz = 0, qw = 1\<rparr>\<rparr>"

text \<open>
  An application right after start-up (time 0, every body at its initial position),
  focused on the example planet and in orbit around it; and stand-ins for the two
  orientation routines.
\<close>

definition exampleLib :: three_lib where
  "exampleLib =
     \<lparr>lookAtQuaternion = (\<lambda>eye target. \<lparr>qx = 0, qy = 0, qz = 0, qw = 1\<rparr>),
      slerp = (\<lambda>qa qb t. qb)\<rparr>"

definition exampleApp :: CosmosApp where
  "exampleApp =
     \<lparr>camera = \<lparr>cam_position = vec 10 (9 / 10) 3,
                 cam_quaternion = \<lparr>qx = 0, qy = 0, qz = 0, qw = 1\<rparr>\<rparr>,
      flightControls = exampleFlight,
      focusControls = exampleFocus\<lparr>targetPlanet := Some (PlanetRef 0), isFocused := True,
                        focusDistance := 3, focus_orbitRadius := 3,
                        transitionProgress := 1\<rparr>,
      solarSystem = examplePlanets,
      time = 0,
      isRunning = True,
      hud = \<lparr>hud_speed = 0, hud_isFocused = True, hud_target = Some (PlanetRef 0),
             hud_distance = 0\<rparr>\<rparr>"

section \<open>Vectors and rotations\<close>

lemma clamp_bounds: "lo \<le> hi \<Longrightarrow> lo \<le> clamp v lo hi \<and> clamp v lo hi \<le> hi"
  by (simp add: clamp_def)

lemma addVectors_zero: "addVectors v_zero v = v"
  by (simp add: addVectors_def v_zero_def vec_def)

lemma v_length_zero: "v_length v_zero = 0"
  by (simp add: v_length_def v_zero_def vec_def)

lemma v_length_nonneg: "0 \<le> v_length v"
  by (simp add: v_length_def)

lemma v_length_eq_0_iff: "v_length v = 0 \<longleftrightarrow> v = v_zero"
proof
  assume "v_length v = 0"
  then have "vx v * vx v + vy v * vy v + vz v * vz v = 0"
    by (simp add: v_length_def)
  then have "vx v = 0 \<and> vy v = 0 \<and> vz v = 0"
    by (smt (verit) mult_eq_0_iff zero_le_square add_nonneg_eq_0_iff add_nonneg_nonneg)
  then show "v = v_zero" by (simp add: v_zero_def vec_def)
next
  assume "v = v_zero"
  then show "v_length v = 0" by (simp add: v_length_zero)
qed

text \<open>The quaternion of an Euler triple has norm one, and turning by it keeps lengths.\<close>

lemma setFromEuler_unit:
  "(qx (setFromEuler e))\<^sup>2 + (qy (setFromEuler e))\<^sup>2 + (qz (setFromEuler e))\<^sup>2
     + (qw (setFromEuler e))\<^sup>2 = 1"
proof -
  have a: "(sin (ex e / 2))\<^sup>2 = 1 - (cos (ex e / 2))\<^sup>2" by (simp add: sin_squared_eq)
  have b: "(sin (ey e / 2))\<^sup>2 = 1 - (cos (ey e / 2))\<^sup>2" by (simp add: sin_squared_eq)
  have c: "(sin (ez e / 2))\<^sup>2 = 1 - (cos (ez e / 2))\<^sup>2" by (simp add: sin_squared_eq)
  show ?thesis
    unfolding setFromEuler_def Let_def
    apply (simp add: power2_eq_square algebra_simps)
    using a b c
    apply (simp add: power2_eq_square)
    by algebra
qed

lemma applyQuaternion_norm:
  assumes "(qx q)\<^sup>2 + (qy q)\<^sup>2 + (qz q)\<^sup>2 + (qw q)\<^sup>2 = 1"
  shows "(vx (applyQuaternion v q))\<^sup>2 + (vy (applyQuaternion v q))\<^sup>2
           + (vz (applyQuaternion v q))\<^sup>2
       = (vx v)\<^sup>2 + (vy v)\<^sup>2 + (vz v)\<^sup>2"
  using assms unfolding applyQuaternion_def Let_def vec_def
  apply simp
  by algebra

lemma v_length_rotate: "v_length (applyQuaternion v (setFromEuler e)) = v_length v"
  using applyQuaternion_norm[OF setFromEuler_unit, of v e]
  by (simp add: v_length_def power2_eq_square)

lemma v_length_normalize:
  assumes h: "v_length v > 0"
  shows "v_length (normalize v) = 1"
proof -
  let ?l = "v_length v"
  have sq: "?l * ?l = vx v * vx v + vy v * vy v + vz v * vz v"
    unfolding v_length_def
    by (metis add_nonneg_nonneg real_sqrt_mult_self abs_of_nonneg zero_le_square)
  have "vx v / ?l * (vx v / ?l) + vy v / ?l * (vy v / ?l) + vz v / ?l * (vz v / ?l)
        = (vx v * vx v + vy v * vy v + vz v * vz v) / (?l * ?l)"
    by (simp add: add_divide_distrib)
  also have "\<dots> = 1"
  proof -
    have "?l * ?l \<noteq> 0" using h by simp
    then show ?thesis using sq by simp
  qed
  finally show ?thesis using h
    by (simp add: normalize_def Let_def vec_def v_length_def[of "\<lparr>vx = _, vy = _, vz = _\<rparr>"])
qed

lemma v_length_scale: "v_length (multiplyScalar v s) = v_length v * \<bar>s\<bar>"
proof -
  have "vx v * s * (vx v * s) + vy v * s * (vy v * s) + vz v * s * (vz v * s)
        = (vx v * vx v + vy v * vy v + vz v * vz v) * (s * s)"
    by (simp add: algebra_simps)
  then show ?thesis
    by (simp add: v_length_def multiplyScalar_def vec_def real_sqrt_mult)
qed

section \<open>Free flight\<close>

lemma targetSpeed_pos: "0 < baseSpeed * (if b then boostMultiplier else 1)"
  by (simp add: baseSpeed_def boostMultiplier_def)

text \<open>
  The target velocity is zero exactly when the flags command no direction; otherwise
  its length is the target speed.
\<close>

lemma v_length_targetVelocity:
  "v_length (targetVelocityOf fc) =
     (if flagDirection fc = v_zero then 0
      else baseSpeed * (if boost fc then boostMultiplier else 1))"
proof (cases "flagDirection fc = v_zero")
  case True
  then show ?thesis
    by (simp add: targetVelocityOf_def Let_def v_length_zero v_length_scale v_length_rotate)
next
  case False
  then have "v_length (flagDirection fc) > 0"
    using v_length_eq_0_iff[of "flagDirection fc"] v_length_nonneg[of "flagDirection fc"]
    by linarith
  then show ?thesis using False targetSpeed_pos[of "boost fc"]
    by (simp add: targetVelocityOf_def Let_def v_length_scale v_length_rotate v_length_normalize)
qed

lemma dampingFactor_targetVelocity:
  "dampingFactor (targetVelocityOf fc) =
     (if flagDirection fc = v_zero then damping else acceleration)"
  using targetSpeed_pos[of "boost fc"]
  by (simp add: dampingFactor_def v_length_targetVelocity)

lemma damp_exponential:
  "k \<noteq> 0 \<Longrightarrow> damp c t k dt = Some (t + (c - t) * exp (- dt / k))"
  by (simp add: damp_def js_div_def lerp_def algebra_simps)

text \<open>
  C4, as the specification states it, fails: with the forward key held the time
  constant that \<open>update\<close> passes to \<open>damp\<close> is not smaller than the one it passes
  with no key held.
\<close>

theorem accelerating_time_constant_not_smaller:
  "\<not> dampingFactor (targetVelocityOf exampleFlightForward)
       < dampingFactor (targetVelocityOf exampleFlight)"
  by (simp add: dampingFactor_targetVelocity exampleFlightForward_def exampleFlight_def
        flagDirection_def v_zero_def vec_def acceleration_def damping_def)

text \<open>
  C4, amended. In a tick of the locked controller the difference between velocity and
  target velocity is multiplied by \<open>exp (- dt / k)\<close>, where \<open>k\<close> is the time constant:
  the velocity approaches the target exponentially. The time constant is 30 when the
  flags command a direction and 5 when they command none, so for the same positive
  \<open>dt\<close> a larger part of the difference is left when accelerating than when coasting:
  the response is strictly slower, not faster.
\<close>

theorem velocity_damping:
  assumes "isLocked fc" and "0 < dt"
    and "flagDirection fa \<noteq> v_zero" and "flagDirection fr = v_zero"
  shows "(\<exists>fc' cam'. flight_update (fc, cam) dt = Some (fc', cam')
            \<and> subVectors (velocity fc') (targetVelocityOf fc)
                = multiplyScalar (subVectors (velocity fc) (targetVelocityOf fc))
                    (exp (- dt / dampingFactor (targetVelocityOf fc))))
       \<and> dampingFactor (targetVelocityOf fa) = 30
       \<and> dampingFactor (targetVelocityOf fr) = 5
       \<and> exp (- dt / dampingFactor (targetVelocityOf fr))
           < exp (- dt / dampingFactor (targetVelocityOf fa))"
proof -
  have k: "dampingFactor (targetVelocityOf fc) \<noteq> 0"
    by (simp add: dampingFactor_targetVelocity acceleration_def damping_def)
  have "\<exists>fc' cam'. flight_update (fc, cam) dt = Some (fc', cam')
           \<and> subVectors (velocity fc') (targetVelocityOf fc)
               = multiplyScalar (subVectors (velocity fc) (targetVelocityOf fc))
                   (exp (- dt / dampingFactor (targetVelocityOf fc)))"
    using assms(1)
    by (simp add: flight_update_def Let_def damp_exponential[OF k] subVectors_def
          multiplyScalar_def vec_def)
  moreover have a: "dampingFactor (targetVelocityOf fa) = 30"
    using assms(3) by (simp add: dampingFactor_targetVelocity acceleration_def)
  moreover have r: "dampingFactor (targetVelocityOf fr) = 5"
    using assms(4) by (simp add: dampingFactor_targetVelocity damping_def)
  moreover have "exp (- dt / dampingFactor (targetVelocityOf fr))
           < exp (- dt / dampingFactor (targetVelocityOf fa))"
    using assms(2) by (simp add: a r)
  ultimately show ?thesis by blast
qed

theorem velocity_damping_witness:
  "isLocked exampleFlightForward \<and> (0::real) < 1
   \<and> flagDirection exampleFlightForward \<noteq> v_zero \<and> flagDirection exampleFlight = v_zero
   \<and> dampingFactor (targetVelocityOf exampleFlightForward) = 30
   \<and> dampingFactor (targetVelocityOf exampleFlight) = 5
   \<and> (\<exists>fc' cam'. flight_update (exampleFlightForward, exampleCamera) 1 = Some (fc', cam'))"
proof -
  have h1: "isLocked exampleFlightForward"
    by (simp add: exampleFlightForward_def)
  have h2: "(0::real) < 1" by simp
  have h3: "flagDirection exampleFlightForward \<noteq> v_zero"
    by (simp add: exampleFlightForward_def exampleFlight_def flagDirection_def v_zero_def vec_def)
  have h4: "flagDirection exampleFlight = v_zero"
    by (simp add: exampleFlight_def flagDirection_def)
  from velocity_damping[OF h1 h2 h3 h4, of exampleCamera] h1 h2 h3 h4 show ?thesis
    by blast
qed

text \<open>A pointer-motion event leaves the pitch within the clamp bounds.\<close>

lemma onMouseMove_pitch:
  assumes "- pi / 2 \<le> ex (euler fc)" "ex (euler fc) \<le> pi / 2"
  shows "- pi / 2 \<le> ex (euler (onMouseMove fc mx my))
         \<and> ex (euler (onMouseMove fc mx my)) \<le> pi / 2"
proof (cases "isLocked fc")
  case False
  then show ?thesis using assms by (simp add: onMouseMove_def)
next
  case True
  have "- pi / 2 \<le> pi / 2" by simp
  from clamp_bounds[OF this] True show ?thesis
    by (simp add: onMouseMove_def Let_def)
qed

text \<open>
  C7. From an orientation whose pitch is within \<open>[-\<pi>/2, \<pi>/2]\<close>, every sequence of
  pointer-motion events leaves the pitch within \<open>[-\<pi>/2, \<pi>/2]\<close>.
\<close>

theorem pitch_stays_clamped:
  "- pi / 2 \<le> ex (euler fc) \<and> ex (euler fc) \<le> pi / 2 \<Longrightarrow>
     - pi / 2 \<le> ex (euler (mouseMoves fc ms)) \<and> ex (euler (mouseMoves fc ms)) \<le> pi / 2"
proof (induction ms arbitrary: fc)
  case Nil
  then show ?case by simp
next
  case (Cons m ms)
  from Cons.prems have "- pi / 2 \<le> ex (euler (onMouseMove fc (fst m) (snd m)))
      \<and> ex (euler (onMouseMove fc (fst m) (snd m))) \<le> pi / 2"
    using onMouseMove_pitch by blast
  from Cons.IH[OF this] show ?case by simp
qed

theorem pitch_stays_clamped_witness:
  "- pi / 2 \<le> ex (euler (exampleFlight\<lparr>isLocked := True\<rparr>))
   \<and> ex (euler (exampleFlight\<lparr>isLocked := True\<rparr>)) \<le> pi / 2
   \<and> - pi / 2
       \<le> ex (euler (mouseMoves (exampleFlight\<lparr>isLocked := True\<rparr>) [(3, - 5000), (0, 7000)]))
   \<and> ex (euler (mouseMoves (exampleFlight\<lparr>isLocked := True\<rparr>) [(3, - 5000), (0, 7000)]))
       \<le> pi / 2
   \<and> ex (euler (mouseMoves (exampleFlight\<lparr>isLocked := True\<rparr>) [(3, - 5000), (0, 7000)]))
       = - pi / 2"
proof -
  have h: "- pi / 2 \<le> ex (euler (exampleFlight\<lparr>isLocked := True\<rparr>))
           \<and> ex (euler (exampleFlight\<lparr>isLocked := True\<rparr>)) \<le> pi / 2"
    by (simp add: exampleFlight_def)
  have "pi < 4" "0 < pi" using pi_less_4 pi_gt_zero by simp_all
  then have e: "ex (euler (mouseMoves (exampleFlight\<lparr>isLocked := True\<rparr>)
                     [(3, - 5000), (0, 7000)])) = - pi / 2"
    by (simp add: exampleFlight_def onMouseMove_def Let_def clamp_def mouseSensitivity_def)
  show ?thesis
    using pitch_stays_clamped[OF h, of "[(3, - 5000), (0, 7000)]"] h e by simp
qed

text \<open>A controller at rest stays at rest under a tick, and the camera stays in place.\<close>

lemma flagDirection_upd:
  "flagDirection (fc\<lparr>velocity := v, direction := d\<rparr>) = flagDirection fc"
  by (simp add: flagDirection_def)

lemma flight_update_at_rest:
  assumes "at_rest fc"
  shows "\<exists>fc' cam'. flight_update (fc, cam) dt = Some (fc', cam')
           \<and> at_rest fc' \<and> cam_position cam' = cam_position cam"
proof (cases "isLocked fc")
  case False
  then show ?thesis using assms by (simp add: flight_update_def)
next
  case True
  have tv: "targetVelocityOf fc = v_zero"
    using assms v_length_targetVelocity[of fc] by (simp add: at_rest_def v_length_eq_0_iff)
  have k: "dampingFactor v_zero = damping"
    by (simp add: dampingFactor_def v_length_zero)
  have d: "damp 0 0 damping dt = Some 0"
    by (simp add: damp_def js_div_def damping_def lerp_def)
  have z: "vx v_zero = 0" "vy v_zero = 0" "vz v_zero = 0"
    by (simp_all add: v_zero_def vec_def)
  show ?thesis
    using assms True
    by (simp add: flight_update_def Let_def tv k d z at_rest_def flagDirection_upd)
       (simp add: v_zero_def vec_def addVectors_def multiplyScalar_def)
qed

lemma flight_updates_at_rest:
  "at_rest fc \<Longrightarrow> \<exists>fc' cam'. flight_updates (fc, cam) dts = Some (fc', cam')
       \<and> at_rest fc' \<and> cam_position cam' = cam_position cam"
proof (induction dts arbitrary: fc cam)
  case Nil
  then show ?case by simp
next
  case (Cons dt dts)
  from flight_update_at_rest[OF Cons.prems, of cam dt]
  obtain fc1 cam1 where s: "flight_update (fc, cam) dt = Some (fc1, cam1)"
    and r: "at_rest fc1" and p: "cam_position cam1 = cam_position cam" by blast
  from Cons.IH[OF r, of cam1] s p show ?case by auto
qed

lemma at_rest_disable: "at_rest (disable fc)"
  by (simp add: at_rest_def disable_def flagDirection_def v_zero_def)

text \<open>
  C8. \<open>disable\<close> clears the seven movement flags and sets the velocity to zero, so
  that \<open>getSpeed\<close> is 0 at once; and after any run of update ticks that follows
  (no flag being set in between) the speed is still 0 and the camera is where it was.
\<close>

theorem disable_stops_flight:
  "\<not> moveForward (disable fc) \<and> \<not> moveBackward (disable fc) \<and> \<not> moveLeft (disable fc)
   \<and> \<not> moveRight (disable fc) \<and> \<not> moveUp (disable fc) \<and> \<not> moveDown (disable fc)
   \<and> \<not> boost (disable fc)
   \<and> velocity (disable fc) = vec 0 0 0
   \<and> getSpeed (disable fc) = 0
   \<and> (\<exists>fc' cam'. flight_updates (disable fc, cam) dts = Some (fc', cam')
         \<and> getSpeed fc' = 0 \<and> cam_position cam' = cam_position cam)"
proof -
  from flight_updates_at_rest[OF at_rest_disable, of fc cam dts]
  obtain fc' cam' where "flight_updates (disable fc, cam) dts = Some (fc', cam')"
    and "at_rest fc'" and "cam_position cam' = cam_position cam" by blast
  then have "\<exists>fc' cam'. flight_updates (disable fc, cam) dts = Some (fc', cam')
         \<and> getSpeed fc' = 0 \<and> cam_position cam' = cam_position cam"
    by (auto simp: at_rest_def getSpeed_def v_length_zero)
  moreover have "getSpeed (disable fc) = 0"
    using at_rest_disable[of fc] by (simp add: at_rest_def getSpeed_def v_length_zero)
  ultimately show ?thesis
    by (simp add: disable_def)
qed

text \<open>
  C9, as the specification states it, fails: with a callback registered for lock and
  one for unlock, the handler of a failed pointer lock invokes neither, and the
  controller has no other callback.
\<close>

theorem lock_failure_invokes_no_callback:
  "onLockCallback exampleFlightCallbacks = Some 1
   \<and> onUnlockCallback exampleFlightCallbacks = Some 2
   \<and> Invoke 1 \<notin> set (snd (onPointerlockError exampleFlightCallbacks))
   \<and> Invoke 2 \<notin> set (snd (onPointerlockError exampleFlightCallbacks))"
  by (simp add: onPointerlockError_def exampleFlightCallbacks_def onLock_def onUnlock_def)

text \<open>An unlocked controller ignores update ticks and pointer motion.\<close>

lemma flight_updates_unlocked:
  "\<not> isLocked fc \<Longrightarrow> flight_updates (fc, cam) dts = Some (fc, cam)"
  by (induction dts) (simp_all add: flight_update_def)

lemma mouseMoves_unlocked: "\<not> isLocked fc \<Longrightarrow> mouseMoves fc ms = fc"
  by (induction ms) (simp_all add: onMouseMove_def)

text \<open>
  C9, amended. A failed pointer lock is written to the console and reported through
  no callback; the handler leaves the controller as it is and does not request the
  lock again. An unlocked controller therefore stays unlocked after a failed request,
  and no run of update ticks or of pointer-motion events that follows changes it or
  the camera.
\<close>

theorem lock_failure_logged:
  "fst (onPointerlockError fc) = fc
   \<and> snd (onPointerlockError fc) = [ConsoleError ''Pointer lock failed'']
   \<and> Invoke cb \<notin> set (snd (onPointerlockError fc))
   \<and> RequestPointerLock \<notin> set (snd (onPointerlockError fc))
   \<and> snd (lock fc) = [RequestPointerLock]
   \<and> (\<not> isLocked fc \<longrightarrow>
        \<not> isLocked (fst (onPointerlockError (fst (lock fc))))
        \<and> flight_updates (fst (onPointerlockError (fst (lock fc))), cam) dts = Some (fc, cam)
        \<and> mouseMoves (fst (onPointerlockError (fst (lock fc)))) ms = fc)"
proof -
  have e: "fst (onPointerlockError (fst (lock fc))) = fc"
    by (simp add: onPointerlockError_def lock_def)
  have "\<not> isLocked fc \<longrightarrow>
        \<not> isLocked (fst (onPointerlockError (fst (lock fc))))
        \<and> flight_updates (fst (onPointerlockError (fst (lock fc))), cam) dts = Some (fc, cam)
        \<and> mouseMoves (fst (onPointerlockError (fst (lock fc)))) ms = fc"
    using flight_updates_unlocked[of fc cam dts] mouseMoves_unlocked[of fc ms]
    by (simp add: e)
  then show ?thesis
    by (simp add: onPointerlockError_def lock_def)
qed

theorem lock_failure_logged_witness:
  "\<not> isLocked exampleFlightCallbacks
   \<and> flight_updates
       (fst (onPointerlockError (fst (lock exampleFlightCallbacks))), exampleCamera) [1, 2]
       = Some (exampleFlightCallbacks, exampleCamera)
   \<and> mouseMoves (fst (onPointerlockError (fst (lock exampleFlightCallbacks)))) [(5, 5)]
       = exampleFlightCallbacks"
proof -
  have h: "\<not> isLocked exampleFlightCallbacks"
    by (simp add: exampleFlightCallbacks_def onLock_def onUnlock_def exampleFlight_def)
  show ?thesis
    using h lock_failure_logged[of exampleFlightCallbacks 0 exampleCamera "[1, 2]" "[(5, 5)]"]
    by blast
qed

section \<open>Focus controls\<close>

lemma position_truncate: "position (body.truncate p) = position p"
  by (simp add: body.truncate_def)

lemma lookup_planet:
  "lookupBody ps (PlanetRef i) = (if i < length ps then Some (body.truncate (ps ! i)) else None)"
  by (simp add: lookupBody_def)

lemma lookup_moon:
  "lookupBody ps (MoonRef i j) =
     (if i < length ps
      then (case moons (ps ! i) of
              None \<Rightarrow> None
            | Some ms \<Rightarrow> (if j < length ms then Some (ms ! j) else None))
      else None)"
  by (simp add: lookupBody_def)

text \<open>The two loops of \<open>focusOnNearest\<close> fold \<open>pick\<close> over the bodies in order.\<close>

lemma foldl_pick_Cons:
  "foldl pick acc (rd # rest)
     = foldl pick (if below (snd rd) (snd acc) then (Some (fst rd), Some (snd rd)) else acc) rest"
  by (simp add: pick_def)

lemma scanMoons_foldl:
  "list_all (\<lambda>rb. position (snd rb) \<noteq> None) (moonBodies i j ms) \<Longrightarrow>
   scanMoons c i j ms acc
     = foldl pick acc (map (\<lambda>rb. (fst rb, distanceToBody c (snd rb))) (moonBodies i j ms))"
proof (induction ms arbitrary: j acc)
  case Nil
  then show ?case by simp
next
  case (Cons m ms)
  from Cons.prems obtain mp where mp: "position m = Some mp" by auto
  from Cons.prems
  have rest: "list_all (\<lambda>rb. position (snd rb) \<noteq> None) (moonBodies i (Suc j) ms)"
    by simp
  show ?case using mp Cons.IH[OF rest]
    by (simp add: foldl_pick_Cons Let_def distanceToBody_def del: foldl_Cons)
qed

lemma scanPlanets_foldl:
  "list_all (\<lambda>rb. position (snd rb) \<noteq> None) (allBodiesFrom i ps) \<Longrightarrow>
   scanPlanets c i ps acc
     = foldl pick acc (map (\<lambda>rb. (fst rb, distanceToBody c (snd rb))) (allBodiesFrom i ps))"
proof (induction ps arbitrary: i acc)
  case Nil
  then show ?case by simp
next
  case (Cons p ps)
  from Cons.prems obtain pp where pp: "position p = Some pp"
    by (auto simp: position_truncate)
  from Cons.prems
  have rest: "list_all (\<lambda>rb. position (snd rb) \<noteq> None) (allBodiesFrom (Suc i) ps)"
    by simp
  show ?case
  proof (cases "moons p")
    case None
    then show ?thesis using pp Cons.IH[OF rest]
      by (simp add: foldl_pick_Cons Let_def distanceToBody_def position_truncate
            del: foldl_Cons)
  next
    case (Some ms)
    with Cons.prems have m: "list_all (\<lambda>rb. position (snd rb) \<noteq> None) (moonBodies i 0 ms)"
      by simp
    show ?thesis using pp Some Cons.IH[OF rest] scanMoons_foldl[OF m]
      by (simp add: foldl_pick_Cons Let_def distanceToBody_def position_truncate
            del: foldl_Cons)
  qed
qed

text \<open>Folding \<open>pick\<close> from \<open>Infinity\<close> ends at the first element of least distance.\<close>

lemma foldl_pick_first_min:
  "xs \<noteq> [] \<Longrightarrow>
   \<exists>k<length xs. foldl pick (None, None) xs = (Some (fst (xs ! k)), Some (snd (xs ! k)))
      \<and> (\<forall>l<length xs. snd (xs ! k) \<le> snd (xs ! l))
      \<and> (\<forall>l<k. snd (xs ! k) < snd (xs ! l))"
proof (induction xs rule: rev_induct)
  case Nil
  then show ?case by simp
next
  case (snoc x xs)
  show ?case
  proof (cases "xs = []")
    case True
    then show ?thesis by (simp add: pick_def below_def)
  next
    case False
    from snoc.IH[OF False] obtain k where k: "k < length xs"
      and f: "foldl pick (None, None) xs = (Some (fst (xs ! k)), Some (snd (xs ! k)))"
      and mn: "\<forall>l<length xs. snd (xs ! k) \<le> snd (xs ! l)"
      and st: "\<forall>l<k. snd (xs ! k) < snd (xs ! l)" by blast
    show ?thesis
    proof (cases "snd x < snd (xs ! k)")
      case True
      have "foldl pick (None, None) (xs @ [x]) = (Some (fst x), Some (snd x))"
        using f True by (simp add: pick_def below_def)
      moreover have "\<forall>l<length (xs @ [x]). snd x \<le> snd ((xs @ [x]) ! l)"
        using mn True by (fastforce simp: nth_append less_Suc_eq)
      moreover have "\<forall>l<length xs. snd x < snd ((xs @ [x]) ! l)"
        using mn True by (fastforce simp: nth_append)
      ultimately show ?thesis
        by (intro exI[of _ "length xs"]) simp
    next
      case False
      have "foldl pick (None, None) (xs @ [x]) = (Some (fst (xs ! k)), Some (snd (xs ! k)))"
        using f False by (simp add: pick_def below_def)
      moreover have "\<forall>l<length (xs @ [x]). snd (xs ! k) \<le> snd ((xs @ [x]) ! l)"
        using mn False by (auto simp: nth_append less_Suc_eq)
      ultimately show ?thesis using k st
        by (intro exI[of _ k]) (auto simp: nth_append)
    qed
  qed
qed

text \<open>A reference listed by \<open>allBodies\<close> points at the body listed with it.\<close>

lemma moonBodies_lookup:
  "(r, b) \<in> set (moonBodies i j ms) \<Longrightarrow>
     \<exists>j'. r = MoonRef i j' \<and> j \<le> j' \<and> j' - j < length ms \<and> ms ! (j' - j) = b"
proof (induction ms arbitrary: j)
  case Nil
  then show ?case by simp
next
  case (Cons m ms)
  from Cons.prems consider "r = MoonRef i j \<and> b = m" | "(r, b) \<in> set (moonBodies i (Suc j) ms)"
    by auto
  then show ?case
  proof cases
    case 1
    then show ?thesis by auto
  next
    case 2
    from Cons.IH[OF 2] obtain j' where "r = MoonRef i j'" "Suc j \<le> j'"
      "j' - Suc j < length ms" "ms ! (j' - Suc j) = b" by blast
    then show ?thesis
      by (intro exI[of _ j']) (auto simp: nth_Cons' Suc_diff_Suc)
  qed
qed

lemma allBodiesFrom_lookup:
  "(r, b) \<in> set (allBodiesFrom (length pre) ps) \<Longrightarrow> lookupBody (pre @ ps) r = Some b"
proof (induction ps arbitrary: pre)
  case Nil
  then show ?case by simp
next
  case (Cons p ps)
  from Cons.prems consider
      (planet) "r = PlanetRef (length pre)" "b = body.truncate p"
    | (moon) ms where "moons p = Some ms" "(r, b) \<in> set (moonBodies (length pre) 0 ms)"
    | (rest) "(r, b) \<in> set (allBodiesFrom (Suc (length pre)) ps)"
    by (cases "moons p") auto
  then show ?case
  proof cases
    case planet
    then show ?thesis by (simp add: lookupBody_def)
  next
    case moon
    from moonBodies_lookup[OF moon(2)] obtain j' where "r = MoonRef (length pre) j'"
      "j' < length ms" "ms ! j' = b" by auto
    then show ?thesis using moon(1) by (simp add: lookupBody_def)
  next
    case rest
    then have "(r, b) \<in> set (allBodiesFrom (length (pre @ [p])) ps)" by simp
    from Cons.IH[OF this] show ?thesis by simp
  qed
qed

lemma allBodies_lookup: "(r, b) \<in> set (allBodies ps) \<Longrightarrow> lookupBody ps r = Some b"
  using allBodiesFrom_lookup[of r b "[]" ps] by (simp add: allBodies_def)

lemma allBodies_empty: "allBodies ps = [] \<longleftrightarrow> ps = []"
  by (cases ps) (simp_all add: allBodies_def)

text \<open>
  C6. Let every planet and every moon of the list have a current position. On the
  empty list \<open>focusOnNearest\<close> returns no target and leaves the focus state and the
  camera as they are. Otherwise, among all planets and moons in iteration order, it
  returns the reference of a body \<open>k\<close> whose distance from the camera is at most that
  of every body and strictly below that of every body before it (the first of least
  distance), and the state it leaves is that of \<open>focusOnPlanet\<close> called on this body.
\<close>

theorem focusOnNearest_first_minimum:
  assumes "allPositioned planets"
  shows "(planets = [] \<longrightarrow> focusOnNearest st planets = (st, None))
       \<and> (planets \<noteq> [] \<longrightarrow>
            (\<exists>k<length (allBodies planets).
               focusOnNearest st planets
                 = (focusOnPlanet st planets (fst (allBodies planets ! k)),
                    Some (fst (allBodies planets ! k)))
               \<and> lookupBody planets (fst (allBodies planets ! k))
                   = Some (snd (allBodies planets ! k))
               \<and> (\<forall>l<length (allBodies planets).
                     distanceToBody (cam_position (snd st)) (snd (allBodies planets ! k))
                       \<le> distanceToBody (cam_position (snd st)) (snd (allBodies planets ! l)))
               \<and> (\<forall>l<k.
                     distanceToBody (cam_position (snd st)) (snd (allBodies planets ! k))
                       < distanceToBody (cam_position (snd st)) (snd (allBodies planets ! l)))))"
proof (intro conjI impI)
  assume "planets = []"
  then show "focusOnNearest st planets = (st, None)"
    by (simp add: focusOnNearest_def)
next
  assume ne: "planets \<noteq> []"
  let ?c = "cam_position (snd st)"
  let ?bs = "allBodies planets"
  let ?xs = "map (\<lambda>rb. (fst rb, distanceToBody ?c (snd rb))) ?bs"
  have pos: "list_all (\<lambda>rb. position (snd rb) \<noteq> None) (allBodiesFrom 0 planets)"
    using assms by (simp add: allPositioned_def allBodies_def)
  have scan: "scanPlanets ?c 0 planets (None, None) = foldl pick (None, None) ?xs"
    using scanPlanets_foldl[OF pos] by (simp add: allBodies_def)
  have "?xs \<noteq> []" using ne by (simp add: allBodies_empty)
  from foldl_pick_first_min[OF this] obtain k where k: "k < length ?bs"
    and f: "foldl pick (None, None) ?xs = (Some (fst (?xs ! k)), Some (snd (?xs ! k)))"
    and mn: "\<forall>l<length ?xs. snd (?xs ! k) \<le> snd (?xs ! l)"
    and sm: "\<forall>l<k. snd (?xs ! k) < snd (?xs ! l)" by auto
  have "focusOnNearest st planets
          = (focusOnPlanet st planets (fst (?bs ! k)), Some (fst (?bs ! k)))"
    using scan f k by (simp add: focusOnNearest_def Let_def)
  moreover have "lookupBody planets (fst (?bs ! k)) = Some (snd (?bs ! k))"
    using k allBodies_lookup[of "fst (?bs ! k)" "snd (?bs ! k)" planets] nth_mem[OF k] by simp
  moreover have "\<forall>l<length ?bs.
      distanceToBody ?c (snd (?bs ! k)) \<le> distanceToBody ?c (snd (?bs ! l))"
    using mn k by simp
  moreover have "\<forall>l<k. distanceToBody ?c (snd (?bs ! k)) < distanceToBody ?c (snd (?bs ! l))"
    using sm k by simp
  ultimately show "\<exists>k<length ?bs.
               focusOnNearest st planets
                 = (focusOnPlanet st planets (fst (?bs ! k)), Some (fst (?bs ! k)))
               \<and> lookupBody planets (fst (?bs ! k)) = Some (snd (?bs ! k))
               \<and> (\<forall>l<length ?bs.
                     distanceToBody ?c (snd (?bs ! k)) \<le> distanceToBody ?c (snd (?bs ! l)))
               \<and> (\<forall>l<k.
                     distanceToBody ?c (snd (?bs ! k)) < distanceToBody ?c (snd (?bs ! l)))"
    using k by blast
qed

lemma allBodies_examplePlanets:
  "allBodies examplePlanets
     = [(PlanetRef 0, body.truncate (createPlanet exampleEarth)),
        (MoonRef 0 0, createPlanet exampleMoon)]"
  by (simp add: examplePlanets_def createSolarSystem_def allBodies_def exampleEarth_def
        createPlanet_def Let_def body.truncate_def)

text \<open>
  With the camera at the origin, the example planet at distance 10 and its moon at
  distance 2, the moon is returned.
\<close>

theorem focusOnNearest_first_minimum_witness:
  "allPositioned examplePlanets
   \<and> focusOnNearest (exampleFocus, exampleCamera) examplePlanets
       = (focusOnPlanet (exampleFocus, exampleCamera) examplePlanets (MoonRef 0 0),
          Some (MoonRef 0 0))"
proof -
  have h: "allPositioned examplePlanets"
    by (simp add: allPositioned_def allBodies_examplePlanets createPlanet_def Let_def
          body.truncate_def)
  have ne: "examplePlanets \<noteq> []"
    by (simp add: examplePlanets_def createSolarSystem_def)
  have d0: "distanceToBody (vec 0 0 0) (body.truncate (createPlanet exampleEarth)) = 10"
    by (simp add: distanceToBody_def createPlanet_def Let_def body.truncate_def exampleEarth_def
          distanceTo_def subVectors_def v_length_def vec_def)
  have d1: "distanceToBody (vec 0 0 0) (createPlanet exampleMoon) = 2"
    by (simp add: distanceToBody_def createPlanet_def Let_def exampleMoon_def
          distanceTo_def subVectors_def v_length_def vec_def)
  let ?bs = "allBodies examplePlanets"
  let ?c = "cam_position (snd (exampleFocus, exampleCamera))"
  from focusOnNearest_first_minimum[OF h, of "(exampleFocus, exampleCamera)"] ne
  obtain k where k: "k < length ?bs"
    and f: "focusOnNearest (exampleFocus, exampleCamera) examplePlanets
             = (focusOnPlanet (exampleFocus, exampleCamera) examplePlanets (fst (?bs ! k)),
                Some (fst (?bs ! k)))"
    and mn: "\<forall>l<length ?bs.
               distanceToBody ?c (snd (?bs ! k)) \<le> distanceToBody ?c (snd (?bs ! l))"
    by blast
  have len: "length ?bs = 2" by (simp add: allBodies_examplePlanets)
  have "k = 1"
  proof (rule ccontr)
    assume "k \<noteq> 1"
    with k len have "k = 0" by simp
    moreover from mn len
    have "distanceToBody ?c (snd (?bs ! k)) \<le> distanceToBody ?c (snd (?bs ! 1))"
      by simp
    ultimately show False
      by (simp add: allBodies_examplePlanets exampleCamera_def d0 d1)
  qed
  with f have "focusOnNearest (exampleFocus, exampleCamera) examplePlanets
       = (focusOnPlanet (exampleFocus, exampleCamera) examplePlanets (MoonRef 0 0),
          Some (MoonRef 0 0))"
    by (simp add: allBodies_examplePlanets)
  with h show ?thesis by simp
qed

text \<open>
  C10. \<open>focusOnPlanet\<close> on a body whose mesh or position is unset changes nothing:
  the focus state, with all its fields, and the camera are returned as they were.
\<close>

theorem focusOnPlanet_unset_is_noop:
  "lookupBody planets r = Some b \<Longrightarrow> mesh b = None \<or> position b = None \<Longrightarrow>
     focusOnPlanet (fc, cam) planets r = (fc, cam)"
  by (auto simp: focusOnPlanet_def Let_def split: option.splits)

theorem focusOnPlanet_unset_is_noop_witness:
  "lookupBody [exampleEarth] (MoonRef 0 0) = Some exampleMoon
   \<and> (mesh exampleMoon = None \<or> position exampleMoon = None)
   \<and> focusOnPlanet (exampleFocus, exampleCamera) [exampleEarth] (MoonRef 0 0)
       = (exampleFocus, exampleCamera)"
proof -
  have a: "lookupBody [exampleEarth] (MoonRef 0 0) = Some exampleMoon"
    by (simp add: lookupBody_def exampleEarth_def)
  have b: "mesh exampleMoon = None \<or> position exampleMoon = None"
    by (simp add: exampleMoon_def)
  show ?thesis using a b focusOnPlanet_unset_is_noop[OF a b, of exampleFocus exampleCamera]
    by simp
qed

section \<open>Body positions and spins\<close>

lemma truncate_fields:
  "orbitRadius (body.truncate p) = orbitRadius p"
  "orbitPeriod (body.truncate p) = orbitPeriod p"
  "rotationPeriod (body.truncate p) = rotationPeriod p"
  "mesh (body.truncate p) = mesh p"
  by (simp_all add: body.truncate_def)

lemma orbitOffset_truncate: "orbitOffset (body.truncate p) t = orbitOffset p t"
  by (simp add: orbitOffset_def truncate_fields)

lemma sameBody_orbitOffset: "sameBody b b' \<Longrightarrow> orbitOffset b' t = orbitOffset b t"
  by (simp add: sameBody_def orbitOffset_def)

subsection \<open>One moon, one planet\<close>

lemma updateMoon_Some: "orbitPeriod m \<noteq> 0 \<Longrightarrow> \<exists>m'. updateMoon t pp m = Some m'"
  by (simp add: updateMoon_def js_div_def Let_def split: option.splits)

lemma updateMoon_same: "updateMoon t pp m = Some m' \<Longrightarrow> sameBody m m'"
  by (auto simp: updateMoon_def js_div_def Let_def sameBody_def split: option.splits if_splits)

lemma updateMoon_position:
  "updateMoon t pp m = Some m' \<Longrightarrow> mesh m \<noteq> None \<Longrightarrow>
     position m' = Some (addVectors pp (orbitOffset m t))"
  by (auto simp: updateMoon_def js_div_def Let_def orbitOffset_def angularScale_def mult.commute
      split: option.splits if_splits)

lemma updateMoon_spin:
  "updateMoon t pp m = Some m' \<Longrightarrow> mesh m = Some me \<Longrightarrow>
     \<exists>me'. mesh m' = Some me'
         \<and> rotation_y me'
             = js_add (rotation_y me) (js_scale (js_div 1 (rotationPeriod m)) 0.01)"
  by (auto simp: updateMoon_def js_div_def Let_def split: option.splits if_splits)

lemma updateMoons_Some:
  "list_all (\<lambda>m. orbitPeriod m \<noteq> 0) ms \<Longrightarrow> \<exists>ms'. updateMoons t pp ms = Some ms'"
proof (induction ms)
  case Nil
  then show ?case by simp
next
  case (Cons m ms)
  then obtain m' ms' where "updateMoon t pp m = Some m'" "updateMoons t pp ms = Some ms'"
    using updateMoon_Some[of m t pp] by auto
  then show ?case by simp
qed

lemma updateMoons_all2:
  "updateMoons t pp ms = Some ms' \<Longrightarrow> list_all2 (\<lambda>m m'. updateMoon t pp m = Some m') ms ms'"
  by (induction ms arbitrary: ms') (auto split: option.splits)

lemma updatePlanet_Some:
  assumes "orbitPeriod p \<noteq> 0"
    and "case moons p of None \<Rightarrow> True | Some ms \<Rightarrow> list_all (\<lambda>m. orbitPeriod m \<noteq> 0) ms"
  shows "\<exists>p'. updatePlanet t p = Some p'"
proof (cases "moons p")
  case None
  then show ?thesis using assms(1)
    by (simp add: updatePlanet_def js_div_def Let_def split: option.splits)
next
  case (Some ms)
  with assms(2) have "list_all (\<lambda>m. orbitPeriod m \<noteq> 0) ms" by simp
  from updateMoons_Some[OF this, of t "vec (cos (t / orbitPeriod p * 0.1) * orbitRadius p) 0
      (sin (t / orbitPeriod p * 0.1) * orbitRadius p)"]
  obtain ms' where "updateMoons t (vec (cos (t / orbitPeriod p * 0.1) * orbitRadius p) 0
      (sin (t / orbitPeriod p * 0.1) * orbitRadius p)) ms = Some ms'" by blast
  then show ?thesis using assms(1) Some
    by (simp add: updatePlanet_def js_div_def Let_def split: option.splits)
qed

lemma updatePlanet_position:
  "updatePlanet t p = Some p' \<Longrightarrow> mesh p \<noteq> None \<Longrightarrow> position p' = Some (orbitOffset p t)"
  by (auto simp: updatePlanet_def js_div_def Let_def orbitOffset_def angularScale_def mult.commute
      split: option.splits if_splits)

lemma updatePlanet_spin:
  "updatePlanet t p = Some p' \<Longrightarrow> mesh p = Some me \<Longrightarrow>
     \<exists>me'. mesh p' = Some me'
         \<and> rotation_y me'
             = js_add (rotation_y me)
                 (Finite (if rotationPeriod p \<noteq> 0 then (1 / rotationPeriod p) * 0.01 else 0))"
  by (auto simp: updatePlanet_def js_div_def Let_def split: option.splits if_splits)

lemma updatePlanet_moons:
  "updatePlanet t p = Some p' \<Longrightarrow> mesh p \<noteq> None \<Longrightarrow> moons p = Some ms \<Longrightarrow>
     \<exists>ms'. moons p' = Some ms'
         \<and> list_all2 (\<lambda>m m'. updateMoon t (orbitOffset p t) m = Some m') ms ms'"
  by (auto simp: updatePlanet_def js_div_def Let_def orbitOffset_def angularScale_def mult.commute
      split: option.splits if_splits dest!: updateMoons_all2)

lemma list_all2_same_refl: "list_all2 sameBody ms ms"
  by (simp add: list_all2_refl sameBody_def)

lemma updatePlanet_same:
  assumes u: "updatePlanet t p = Some p'"
  shows "samePlanet p p'"
proof (cases "mesh p")
  case None
  with u have "p' = p" by (simp add: updatePlanet_def)
  then show ?thesis
    by (cases "moons p") (simp_all add: samePlanet_def sameBody_def list_all2_same_refl)
next
  case (Some me)
  have b: "sameBody p p'" using u Some
    by (auto simp: updatePlanet_def js_div_def Let_def sameBody_def split: option.splits if_splits)
  show ?thesis
  proof (cases "moons p")
    case None
    with u Some have "moons p' = None"
      by (auto simp: updatePlanet_def js_div_def Let_def split: option.splits if_splits)
    with None b show ?thesis by (simp add: samePlanet_def)
  next
    case (Some ms)
    from updatePlanet_moons[OF u _ Some] \<open>mesh p = Some me\<close>
    obtain ms' where m: "moons p' = Some ms'"
      and a: "list_all2 (\<lambda>m m'. updateMoon t (orbitOffset p t) m = Some m') ms ms'" by auto
    from a have "list_all2 sameBody ms ms'"
      by (rule list_all2_mono) (rule updateMoon_same)
    with b m Some show ?thesis by (simp add: samePlanet_def)
  qed
qed

subsection \<open>The whole list\<close>

lemma updateSolarSystem_Some:
  "orbitPeriodsNonzero ps \<Longrightarrow> \<exists>ps'. updateSolarSystem ps t = Some ps'"
proof (induction ps)
  case Nil
  then show ?case by simp
next
  case (Cons p ps)
  then have "\<exists>p'. updatePlanet t p = Some p'" "\<exists>ps'. updateSolarSystem ps t = Some ps'"
    using updatePlanet_Some[of p t] by (auto simp: orbitPeriodsNonzero_def)
  then show ?case by auto
qed

lemma updateSolarSystem_all2:
  "updateSolarSystem ps t = Some ps' \<Longrightarrow> list_all2 (\<lambda>p p'. updatePlanet t p = Some p') ps ps'"
  by (induction ps arbitrary: ps') (auto split: option.splits)

lemma step_planet:
  assumes u: "updateSolarSystem ps t = Some ps'" and i: "i < length ps"
  shows "length ps' = length ps" "updatePlanet t (ps ! i) = Some (ps' ! i)"
  using list_all2_lengthD[OF updateSolarSystem_all2[OF u]]
        list_all2_nthD[OF updateSolarSystem_all2[OF u] i]
  by simp_all

text \<open>After one update, an updated body is where the formula puts it.\<close>

lemma step_position:
  assumes u: "updateSolarSystem ps t = Some ps'" and h: "hasMesh ps r"
  shows "positionOf ps' r = spec_position ps t r \<and> spec_position ps t r \<noteq> None"
proof (cases r)
  case (PlanetRef i)
  with h have i: "i < length ps" and m: "mesh (ps ! i) \<noteq> None"
    by (auto simp: hasMesh_def lookup_planet truncate_fields split: if_splits)
  from step_planet[OF u i] updatePlanet_position[of t "ps ! i" "ps' ! i"] m
  have "length ps' = length ps" "position (ps' ! i) = Some (orbitOffset (ps ! i) t)" by auto
  then show ?thesis using PlanetRef i
    by (simp add: positionOf_def spec_position_def parentPosition_def lookup_planet
          addVectors_zero position_truncate orbitOffset_truncate)
next
  case (MoonRef i j)
  with h obtain ms where i: "i < length ps" and m: "mesh (ps ! i) \<noteq> None"
    and ms: "moons (ps ! i) = Some ms" and j: "j < length ms" and mm: "mesh (ms ! j) \<noteq> None"
    by (auto simp: hasMesh_def lookup_planet lookup_moon truncate_fields
        split: if_splits option.splits)
  from step_planet[OF u i] have l: "length ps' = length ps"
    and up: "updatePlanet t (ps ! i) = Some (ps' ! i)" by auto
  from updatePlanet_moons[OF up m ms] obtain ms' where ms': "moons (ps' ! i) = Some ms'"
    and a: "list_all2 (\<lambda>m m'. updateMoon t (orbitOffset (ps ! i) t) m = Some m') ms ms'" by blast
  from list_all2_lengthD[OF a] list_all2_nthD[OF a j] have l2: "length ms' = length ms"
    and um: "updateMoon t (orbitOffset (ps ! i) t) (ms ! j) = Some (ms' ! j)"
    by simp_all
  from updateMoon_position[OF um mm]
  have "position (ms' ! j) = Some (addVectors (orbitOffset (ps ! i) t) (orbitOffset (ms ! j) t))" .
  then show ?thesis using MoonRef i j l l2 ms ms'
    by (simp add: positionOf_def spec_position_def parentPosition_def lookup_planet lookup_moon
          addVectors_zero orbitOffset_truncate)
qed

text \<open>After one update, the spin of an updated body has grown by a fixed amount.\<close>

lemma step_spin:
  assumes u: "updateSolarSystem ps t = Some ps'" and h: "hasMesh ps r"
    and b: "lookupBody ps r = Some b" and a: "spinOf ps r = Some (Finite a)"
    and nz: "case r of PlanetRef i \<Rightarrow> True | MoonRef i j \<Rightarrow> rotationPeriod b \<noteq> 0"
  shows "spinOf ps' r
         = Some (Finite (a + (if rotationPeriod b \<noteq> 0 then (1 / rotationPeriod b) * 0.01 else 0)))"
proof (cases r)
  case (PlanetRef i)
  with h have i: "i < length ps" and m: "mesh (ps ! i) \<noteq> None"
    by (auto simp: hasMesh_def lookup_planet truncate_fields split: if_splits)
  from b PlanetRef i have bb: "b = body.truncate (ps ! i)" by (simp add: lookup_planet)
  from m obtain me where me: "mesh (ps ! i) = Some me" by auto
  with a PlanetRef i have ra: "rotation_y me = Finite a"
    by (simp add: spinOf_def lookup_planet truncate_fields)
  from step_planet[OF u i] have l: "length ps' = length ps"
    and up: "updatePlanet t (ps ! i) = Some (ps' ! i)" by auto
  from updatePlanet_spin[OF up me] ra show ?thesis using PlanetRef i l bb
    by (auto simp: spinOf_def lookup_planet truncate_fields js_add_def)
next
  case (MoonRef i j)
  with h obtain ms where i: "i < length ps" and m: "mesh (ps ! i) \<noteq> None"
    and ms: "moons (ps ! i) = Some ms" and j: "j < length ms" and mm: "mesh (ms ! j) \<noteq> None"
    by (auto simp: hasMesh_def lookup_planet lookup_moon truncate_fields
        split: if_splits option.splits)
  from b MoonRef i ms j have bb: "b = ms ! j" by (simp add: lookup_moon)
  from nz MoonRef have rp: "rotationPeriod b \<noteq> 0" by simp
  from mm obtain me where me: "mesh (ms ! j) = Some me" by auto
  with a MoonRef i ms j have ra: "rotation_y me = Finite a"
    by (simp add: spinOf_def lookup_moon)
  from step_planet[OF u i] have l: "length ps' = length ps"
    and up: "updatePlanet t (ps ! i) = Some (ps' ! i)" by auto
  from updatePlanet_moons[OF up m ms] obtain ms' where ms': "moons (ps' ! i) = Some ms'"
    and al: "list_all2 (\<lambda>m m'. updateMoon t (orbitOffset (ps ! i) t) m = Some m') ms ms'"
    by blast
  from list_all2_lengthD[OF al] list_all2_nthD[OF al j] have l2: "length ms' = length ms"
    and um: "updateMoon t (orbitOffset (ps ! i) t) (ms ! j) = Some (ms' ! j)"
    by simp_all
  from updateMoon_spin[OF um me] ra rp bb show ?thesis using MoonRef i j l l2 ms'
    by (auto simp: spinOf_def lookup_moon js_add_def js_scale_def js_div_def)
qed

subsection \<open>What an update leaves alone\<close>

lemma samePlanets_lookup:
  assumes a: "list_all2 samePlanet ps ps'"
  shows "rel_option sameBody (lookupBody ps r) (lookupBody ps' r)"
proof (cases r)
  case (PlanetRef i)
  show ?thesis
  proof (cases "i < length ps")
    case True
    from list_all2_nthD[OF a True] list_all2_lengthD[OF a]
    have "samePlanet (ps ! i) (ps' ! i)" "length ps' = length ps" by simp_all
    then show ?thesis using True PlanetRef
      by (simp add: lookup_planet samePlanet_def sameBody_def truncate_fields)
  next
    case False
    then show ?thesis using PlanetRef list_all2_lengthD[OF a] by (simp add: lookup_planet)
  qed
next
  case (MoonRef i j)
  show ?thesis
  proof (cases "i < length ps")
    case True
    from list_all2_nthD[OF a True] list_all2_lengthD[OF a]
    have s: "samePlanet (ps ! i) (ps' ! i)" and l: "length ps' = length ps" by simp_all
    from s have ro: "rel_option (list_all2 sameBody) (moons (ps ! i)) (moons (ps' ! i))"
      by (simp add: samePlanet_def)
    show ?thesis
    proof (cases "moons (ps ! i)")
      case None
      with ro have "moons (ps' ! i) = None" by (cases "moons (ps' ! i)") simp_all
      with None True l MoonRef show ?thesis by (simp add: lookup_moon)
    next
      case (Some ms)
      with ro obtain ms' where ms': "moons (ps' ! i) = Some ms'" and b: "list_all2 sameBody ms ms'"
        by (cases "moons (ps' ! i)") simp_all
      show ?thesis
      proof (cases "j < length ms")
        case True
        from list_all2_nthD[OF b True] list_all2_lengthD[OF b]
        have "sameBody (ms ! j) (ms' ! j)" "length ms' = length ms" by simp_all
        then show ?thesis using True \<open>i < length ps\<close> l Some ms' MoonRef
          by (simp add: lookup_moon)
      next
        case False
        then show ?thesis using \<open>i < length ps\<close> l Some ms' MoonRef list_all2_lengthD[OF b]
          by (simp add: lookup_moon)
      qed
    qed
  next
    case False
    then show ?thesis using MoonRef list_all2_lengthD[OF a] by (simp add: lookup_moon)
  qed
qed

lemma samePlanets_parentPosition:
  assumes a: "list_all2 samePlanet ps ps'"
  shows "parentPosition ps' t r = parentPosition ps t r"
proof (cases r)
  case (PlanetRef i)
  then show ?thesis by (simp add: parentPosition_def)
next
  case (MoonRef i j)
  from samePlanets_lookup[OF a, of "PlanetRef i"] show ?thesis using MoonRef
    by (cases "lookupBody ps (PlanetRef i)"; cases "lookupBody ps' (PlanetRef i)")
       (simp_all add: parentPosition_def sameBody_orbitOffset)
qed

lemma samePlanets_spec_position:
  assumes a: "list_all2 samePlanet ps ps'"
  shows "spec_position ps' t r = spec_position ps t r"
  using samePlanets_lookup[OF a, of r] samePlanets_parentPosition[OF a, of t r]
  by (cases "lookupBody ps r"; cases "lookupBody ps' r")
     (simp_all add: spec_position_def sameBody_orbitOffset split: option.splits)

lemma samePlanets_hasMesh:
  assumes a: "list_all2 samePlanet ps ps'"
  shows "hasMesh ps' r = hasMesh ps r"
proof (cases r)
  case (PlanetRef i)
  from samePlanets_lookup[OF a, of "PlanetRef i"] show ?thesis using PlanetRef
    by (cases "lookupBody ps (PlanetRef i)"; cases "lookupBody ps' (PlanetRef i)")
       (simp_all add: hasMesh_def sameBody_def)
next
  case (MoonRef i j)
  from samePlanets_lookup[OF a, of "PlanetRef i"] samePlanets_lookup[OF a, of "MoonRef i j"]
  show ?thesis using MoonRef
    by (cases "lookupBody ps (PlanetRef i)"; cases "lookupBody ps' (PlanetRef i)";
        cases "lookupBody ps (MoonRef i j)"; cases "lookupBody ps' (MoonRef i j)")
       (simp_all add: hasMesh_def sameBody_def)
qed

lemma sameBody_periods:
  "list_all2 sameBody ms ms' \<Longrightarrow> list_all (\<lambda>m. orbitPeriod m \<noteq> 0) ms \<Longrightarrow>
     list_all (\<lambda>m. orbitPeriod m \<noteq> 0) ms'"
  by (induction rule: list_all2_induct) (simp_all add: sameBody_def)

lemma samePlanets_orbitPeriodsNonzero:
  "list_all2 samePlanet ps ps' \<Longrightarrow> orbitPeriodsNonzero ps \<Longrightarrow> orbitPeriodsNonzero ps'"
proof (induction rule: list_all2_induct)
  case Nil
  then show ?case by (simp add: orbitPeriodsNonzero_def)
next
  case (Cons p ps p' ps')
  from Cons.hyps(1) have o: "orbitPeriod p' = orbitPeriod p"
    and ro: "rel_option (list_all2 sameBody) (moons p) (moons p')"
    by (simp_all add: samePlanet_def sameBody_def)
  from Cons.prems have fp: "orbitPeriod p \<noteq> 0"
    and fm: "case moons p of None \<Rightarrow> True | Some ms \<Rightarrow> list_all (\<lambda>m. orbitPeriod m \<noteq> 0) ms"
    and rest: "orbitPeriodsNonzero ps" by (simp_all add: orbitPeriodsNonzero_def)
  have "case moons p' of None \<Rightarrow> True | Some ms \<Rightarrow> list_all (\<lambda>m. orbitPeriod m \<noteq> 0) ms"
    using ro fm sameBody_periods
    by (cases "moons p"; cases "moons p'") auto
  with o fp Cons.IH[OF rest] show ?case by (simp add: orbitPeriodsNonzero_def)
qed

lemma updateSolarSystem_same:
  "updateSolarSystem ps t = Some ps' \<Longrightarrow> list_all2 samePlanet ps ps'"
  using updateSolarSystem_all2[of ps t ps'] updatePlanet_same
  by (auto elim: list_all2_mono)

subsection \<open>Many frames\<close>

lemma advance_position:
  "orbitPeriodsNonzero ps \<Longrightarrow> hasMesh ps r \<Longrightarrow> dts \<noteq> [] \<Longrightarrow>
     \<exists>ps'. advance ps t0 dts = Some (ps', t0 + sum_list dts)
          \<and> positionOf ps' r = spec_position ps (t0 + sum_list dts) r"
proof (induction dts arbitrary: ps t0)
  case Nil
  then show ?case by simp
next
  case (Cons dt dts)
  from updateSolarSystem_Some[OF Cons.prems(1), of "t0 + dt"]
  obtain ps1 where u: "updateSolarSystem ps (t0 + dt) = Some ps1" by blast
  note same = updateSolarSystem_same[OF u]
  show ?case
  proof (cases "dts = []")
    case True
    then show ?thesis using u step_position[OF u Cons.prems(2)] by simp
  next
    case False
    have "orbitPeriodsNonzero ps1"
      using samePlanets_orbitPeriodsNonzero[OF same Cons.prems(1)] .
    moreover have "hasMesh ps1 r" using samePlanets_hasMesh[OF same] Cons.prems(2) by simp
    ultimately obtain ps' where "advance ps1 (t0 + dt) dts = Some (ps', t0 + dt + sum_list dts)"
      and "positionOf ps' r = spec_position ps1 (t0 + dt + sum_list dts) r"
      using Cons.IH[OF _ _ False, of ps1 "t0 + dt"] by blast
    then show ?thesis using u samePlanets_spec_position[OF same]
      by (simp add: add.assoc)
  qed
qed

lemma orbitOffset_0: "orbitOffset b 0 = vec (orbitRadius b) 0 0"
  by (simp add: orbitOffset_def)

subsection \<open>Registration\<close>

lemma truncate_createPlanet:
  "body.truncate ((createPlanet p)\<lparr>moons := x\<rparr>) = createPlanet (body.truncate p)"
  by (simp add: createPlanet_def Let_def body.truncate_def)

lemma lookup_createSolarSystem:
  assumes "lookupBody ps r = Some b"
  shows "lookupBody (createSolarSystem ps) r = Some (createPlanet b)"
proof (cases r)
  case (PlanetRef i)
  with assms have "i < length ps" "b = body.truncate (ps ! i)"
    by (simp_all add: lookup_planet split: if_splits)
  then show ?thesis using PlanetRef
    by (simp add: lookup_planet createSolarSystem_def truncate_createPlanet)
next
  case (MoonRef i j)
  with assms obtain ms where "i < length ps" "moons (ps ! i) = Some ms" "j < length ms"
    "b = ms ! j"
    by (auto simp: lookup_moon split: if_splits option.splits)
  then show ?thesis using MoonRef
    by (simp add: lookup_moon createSolarSystem_def)
qed

lemma hasMesh_createSolarSystem:
  assumes "lookupBody ps r = Some b"
  shows "hasMesh (createSolarSystem ps) r"
proof (cases r)
  case (PlanetRef i)
  with lookup_createSolarSystem[OF assms] show ?thesis
    by (simp add: hasMesh_def createPlanet_def Let_def)
next
  case (MoonRef i j)
  with assms have "i < length ps" by (simp add: lookup_moon split: if_splits)
  then have "lookupBody ps (PlanetRef i) = Some (body.truncate (ps ! i))"
    by (simp add: lookup_planet)
  from lookup_createSolarSystem[OF this] lookup_createSolarSystem[OF assms] MoonRef
  show ?thesis
    by (simp add: hasMesh_def createPlanet_def Let_def)
qed

lemma spinOf_createSolarSystem:
  assumes "lookupBody ps r = Some b"
  shows "spinOf (createSolarSystem ps) r = Some (Finite 0)"
  using lookup_createSolarSystem[OF assms]
  by (simp add: spinOf_def createPlanet_def Let_def)

text \<open>
  The moon loop divides by the rotation period without the guard of the planet loop:
  the spin of an updated moon whose rotation period is zero is no longer finite.
\<close>

lemma moon_zero_rotationPeriod_spin:
  "updateMoon t pp m = Some m' \<Longrightarrow> mesh m = Some me \<Longrightarrow> rotationPeriod m = 0 \<Longrightarrow>
     \<exists>me'. mesh m' = Some me' \<and> rotation_y me' = NonFinite"
  by (auto simp: updateMoon_def js_div_def js_scale_def js_add_def Let_def
      split: option.splits if_splits num.splits)

subsection \<open>The claims on positions, spins and registration\<close>

text \<open>
  C5. Let every orbit period be other than zero, and take a body that is updated
  (it and its parent have a mesh). After any non-empty run of frames from time 0,
  the position of the body is the position of its parent (the origin for a planet)
  plus \<open>(orbitRadius \<sdot> cos angle, 0, orbitRadius \<sdot> sin angle)\<close> with
  \<open>angle = (t / orbitPeriod) \<sdot> angularScale\<close>, where \<open>t\<close> is the sum of the frame deltas.
  A single update at time \<open>t\<close> gives the same position, and an update at time 0 puts
  the body at \<open>(orbitRadius, 0, 0)\<close> from its parent.
\<close>

theorem body_position_formula:
  assumes "orbitPeriodsNonzero ps" and "hasMesh ps r" and "dts \<noteq> []"
  shows "\<exists>ps' ps1 ps0 p b pp.
            advance ps 0 dts = Some (ps', sum_list dts)
          \<and> updateSolarSystem ps (sum_list dts) = Some ps1
          \<and> spec_position ps (sum_list dts) r = Some p
          \<and> positionOf ps' r = Some p
          \<and> positionOf ps1 r = Some p
          \<and> updateSolarSystem ps 0 = Some ps0
          \<and> lookupBody ps r = Some b
          \<and> parentPosition ps 0 r = Some pp
          \<and> positionOf ps0 r = Some (addVectors pp (vec (orbitRadius b) 0 0))"
proof -
  from advance_position[OF assms, of 0]
  obtain ps' where a: "advance ps 0 dts = Some (ps', sum_list dts)"
    and pa: "positionOf ps' r = spec_position ps (sum_list dts) r" by auto
  from updateSolarSystem_Some[OF assms(1)]
  obtain ps1 ps0 where u1: "updateSolarSystem ps (sum_list dts) = Some ps1"
    and u0: "updateSolarSystem ps 0 = Some ps0" by blast
  from step_position[OF u1 assms(2)] obtain p where sp: "spec_position ps (sum_list dts) r = Some p"
    and p1: "positionOf ps1 r = Some p" by auto
  from step_position[OF u0 assms(2)]
  have p0: "positionOf ps0 r = spec_position ps 0 r" and nn: "spec_position ps 0 r \<noteq> None"
    by auto
  from nn obtain pp b where pp: "parentPosition ps 0 r = Some pp"
    and b: "lookupBody ps r = Some b"
    by (auto simp: spec_position_def split: option.splits)
  then have "spec_position ps 0 r = Some (addVectors pp (vec (orbitRadius b) 0 0))"
    by (simp add: spec_position_def orbitOffset_0)
  with a u1 sp pa p1 u0 b pp p0 show ?thesis by simp
qed

theorem body_position_formula_witness:
  "orbitPeriodsNonzero examplePlanets \<and> hasMesh examplePlanets (MoonRef 0 0)
   \<and> [1, 2] \<noteq> ([]::real list)
   \<and> (\<exists>ps' p. advance examplePlanets 0 [1, 2] = Some (ps', 3)
         \<and> spec_position examplePlanets 3 (MoonRef 0 0) = Some p
         \<and> positionOf ps' (MoonRef 0 0) = Some p)"
proof -
  have h1: "orbitPeriodsNonzero examplePlanets"
    by (simp add: orbitPeriodsNonzero_def examplePlanets_def createSolarSystem_def
          createPlanet_def Let_def exampleEarth_def exampleMoon_def)
  have b: "lookupBody [exampleEarth] (MoonRef 0 0) = Some exampleMoon"
    by (simp add: lookupBody_def exampleEarth_def)
  have h2: "hasMesh examplePlanets (MoonRef 0 0)"
    unfolding examplePlanets_def by (rule hasMesh_createSolarSystem[OF b])
  have h3: "[1, 2] \<noteq> ([]::real list)" by simp
  from body_position_formula[OF h1 h2 h3] h1 h2 show ?thesis
    by auto
qed

text \<open>
  C2, as the specification states it, fails: the spin added by an update does not
  depend on the frame delta. From time 0 the example planet (rotation period 1) has
  spin 0.01 after a frame of delta 1 and also after a frame of delta 2.
\<close>

theorem spin_not_scaled_by_dt:
  "spinOf examplePlanets (PlanetRef 0) = Some (Finite 0)
   \<and> spinAfter examplePlanets (0 + 1) (PlanetRef 0) = Some (Finite (1 / 100))
   \<and> spinAfter examplePlanets (0 + 2) (PlanetRef 0) = Some (Finite (1 / 100))"
  by (simp add: spinAfter_def spinOf_def examplePlanets_def createSolarSystem_def
        createPlanet_def Let_def exampleEarth_def exampleMoon_def updatePlanet_def
        updateMoon_def js_div_def js_add_def js_scale_def lookupBody_def body.truncate_def)

text \<open>
  C2, amended. In an update step every updated planet whose rotation period is not
  zero, and every updated moon whose rotation period is not zero, has its spin
  changed by exactly \<open>(1 / rotationPeriod) \<sdot> 0.01\<close>, whatever the frame delta (the sign
  of the rotation period reverses the direction); the spin of a planet whose rotation
  period is zero is unchanged. So after a run of frames the spin has grown by the
  number of frames times that amount, whatever their deltas.
\<close>

theorem spin_step:
  assumes "advance ps t0 dts = Some (ps', t1)" and "hasMesh ps r"
    and "lookupBody ps r = Some b" and "spinOf ps r = Some (Finite a)"
    and "case r of PlanetRef i \<Rightarrow> True | MoonRef i j \<Rightarrow> rotationPeriod b \<noteq> 0"
  shows "spinOf ps' r
         = Some (Finite (a + real (length dts)
                   * (if rotationPeriod b \<noteq> 0 then (1 / rotationPeriod b) * 0.01 else 0)))"
  using assms
proof (induction dts arbitrary: ps t0 a b)
  case Nil
  then show ?case by simp
next
  case (Cons dt dts)
  let ?inc = "if rotationPeriod b \<noteq> 0 then (1 / rotationPeriod b) * 0.01 else 0"
  from Cons.prems(1) obtain ps1 where u: "updateSolarSystem ps (t0 + dt) = Some ps1"
    and adv: "advance ps1 (t0 + dt) dts = Some (ps', t1)"
    by (auto split: option.splits)
  note same = updateSolarSystem_same[OF u]
  have s1: "spinOf ps1 r = Some (Finite (a + ?inc))"
    using step_spin[OF u Cons.prems(2) Cons.prems(3) Cons.prems(4) Cons.prems(5)] .
  have h1: "hasMesh ps1 r" using samePlanets_hasMesh[OF same] Cons.prems(2) by simp
  from samePlanets_lookup[OF same, of r] Cons.prems(3)
  obtain b1 where b1: "lookupBody ps1 r = Some b1" and sb: "sameBody b b1"
    by (cases "lookupBody ps1 r") simp_all
  from sb have rp: "rotationPeriod b1 = rotationPeriod b" by (simp add: sameBody_def)
  have nz: "case r of PlanetRef i \<Rightarrow> True | MoonRef i j \<Rightarrow> rotationPeriod b1 \<noteq> 0"
    using Cons.prems(5) rp by (cases r) simp_all
  from Cons.IH[OF adv h1 b1 s1 nz] rp show ?case
    by (simp add: algebra_simps)
qed

theorem spin_step_witness:
  "(\<exists>ps'. advance examplePlanets 0 [3, 4] = Some (ps', 7)
        \<and> spinOf ps' (MoonRef 0 0) = Some (Finite (1 / 100)))
   \<and> hasMesh examplePlanets (MoonRef 0 0)
   \<and> lookupBody examplePlanets (MoonRef 0 0) = Some (createPlanet exampleMoon)
   \<and> spinOf examplePlanets (MoonRef 0 0) = Some (Finite 0)
   \<and> rotationPeriod (createPlanet exampleMoon) \<noteq> 0"
proof -
  have h1: "orbitPeriodsNonzero examplePlanets"
    by (simp add: orbitPeriodsNonzero_def examplePlanets_def createSolarSystem_def
          createPlanet_def Let_def exampleEarth_def exampleMoon_def)
  have b: "lookupBody [exampleEarth] (MoonRef 0 0) = Some exampleMoon"
    by (simp add: lookupBody_def exampleEarth_def)
  have h2: "hasMesh examplePlanets (MoonRef 0 0)"
    unfolding examplePlanets_def by (rule hasMesh_createSolarSystem[OF b])
  from advance_position[OF h1 h2, of "[3, 4]" 0]
  obtain ps' where u: "advance examplePlanets 0 [3, 4] = Some (ps', 7)" by auto
  have h3: "lookupBody examplePlanets (MoonRef 0 0) = Some (createPlanet exampleMoon)"
    unfolding examplePlanets_def by (rule lookup_createSolarSystem[OF b])
  have h4: "spinOf examplePlanets (MoonRef 0 0) = Some (Finite 0)"
    unfolding examplePlanets_def by (rule spinOf_createSolarSystem[OF b])
  have rp: "rotationPeriod (createPlanet exampleMoon) = 2"
    by (simp add: createPlanet_def Let_def exampleMoon_def)
  then have h5: "case MoonRef 0 0 of PlanetRef i \<Rightarrow> True
                 | MoonRef i j \<Rightarrow> rotationPeriod (createPlanet exampleMoon) \<noteq> 0"
    by simp
  from spin_step[OF u h2 h3 h4 h5] rp
  have "spinOf ps' (MoonRef 0 0) = Some (Finite (1 / 100))" by simp
  with u h2 h3 h4 rp show ?thesis by simp
qed

text \<open>
  C3, as the specification states it, fails: a body whose orbit period is \<open>-1\<close> is
  registered like any other (it gets its mesh and its initial position), and the
  update step that follows computes a position for it.
\<close>

theorem nonpositive_orbitPeriod_accepted:
  "orbitPeriod exampleRetro \<le> 0
   \<and> hasMesh (createSolarSystem [exampleRetro]) (PlanetRef 0)
   \<and> positionOf (createSolarSystem [exampleRetro]) (PlanetRef 0) = Some (vec 5 0 0)
   \<and> updateSolarSystem (createSolarSystem [exampleRetro]) 1 \<noteq> None"
  by (simp add: exampleRetro_def createSolarSystem_def createPlanet_def Let_def hasMesh_def
        positionOf_def lookupBody_def body.truncate_def updatePlanet_def js_div_def)

text \<open>
  C3, amended. Registration rejects nothing: every body of the list, whatever its
  orbit period, is in the registered set under the same reference, with its periods
  as given, a mesh and the initial position \<open>(orbitRadius, 0, 0)\<close>. A top-level body
  whose rotation period is zero is accepted like the others and does not spin: after
  an update step its spin is still 0.
\<close>

theorem registration_accepts_every_body:
  assumes "lookupBody ps r = Some b"
  shows "length (createSolarSystem ps) = length ps
       \<and> lookupBody (createSolarSystem ps) r = Some (createPlanet b)
       \<and> orbitPeriod (createPlanet b) = orbitPeriod b
       \<and> rotationPeriod (createPlanet b) = rotationPeriod b
       \<and> position (createPlanet b) = Some (vec (orbitRadius b) 0 0)
       \<and> hasMesh (createSolarSystem ps) r
       \<and> spinOf (createSolarSystem ps) r = Some (Finite 0)
       \<and> (\<forall>i t ps'. r = PlanetRef i \<longrightarrow> rotationPeriod b = 0 \<longrightarrow>
             updateSolarSystem (createSolarSystem ps) t = Some ps' \<longrightarrow>
             spinOf ps' r = Some (Finite 0))"
proof -
  note l = lookup_createSolarSystem[OF assms]
  note h = hasMesh_createSolarSystem[OF assms]
  note s = spinOf_createSolarSystem[OF assms]
  have f: "orbitPeriod (createPlanet b) = orbitPeriod b"
    "rotationPeriod (createPlanet b) = rotationPeriod b"
    "position (createPlanet b) = Some (vec (orbitRadius b) 0 0)"
    by (simp_all add: createPlanet_def Let_def)
  have "spinOf ps' r = Some (Finite 0)"
    if "r = PlanetRef i" "rotationPeriod b = 0"
       "updateSolarSystem (createSolarSystem ps) t = Some ps'" for i t ps'
    using step_spin[OF that(3) h l s] that(1,2) f(2) by simp
  then show ?thesis using l h s f
    by (simp add: createSolarSystem_def)
qed

theorem registration_accepts_every_body_witness:
  "lookupBody [exampleRetro] (PlanetRef 0) = Some (body.truncate exampleRetro)
   \<and> orbitPeriod (body.truncate exampleRetro) \<le> 0
   \<and> rotationPeriod (body.truncate exampleRetro) = 0
   \<and> hasMesh (createSolarSystem [exampleRetro]) (PlanetRef 0)
   \<and> (\<exists>ps'. updateSolarSystem (createSolarSystem [exampleRetro]) 1 = Some ps'
         \<and> spinOf ps' (PlanetRef 0) = Some (Finite 0))"
proof -
  have a: "lookupBody [exampleRetro] (PlanetRef 0) = Some (body.truncate exampleRetro)"
    by (simp add: lookupBody_def)
  have o: "orbitPeriod (body.truncate exampleRetro) \<le> 0"
    "rotationPeriod (body.truncate exampleRetro) = 0"
    by (simp_all add: body.truncate_def exampleRetro_def)
  have "orbitPeriodsNonzero (createSolarSystem [exampleRetro])"
    by (simp add: orbitPeriodsNonzero_def createSolarSystem_def createPlanet_def Let_def
          exampleRetro_def)
  from updateSolarSystem_Some[OF this, of 1]
  obtain ps' where u: "updateSolarSystem (createSolarSystem [exampleRetro]) 1 = Some ps'"
    by blast
  from registration_accepts_every_body[OF a] o(2) u
  have "hasMesh (createSolarSystem [exampleRetro]) (PlanetRef 0)"
    "spinOf ps' (PlanetRef 0) = Some (Finite 0)"
    by blast+
  with a o u show ?thesis by simp
qed

section \<open>The frame loop\<close>

lemma flight_update_Some: "\<exists>st'. flight_update st dt = Some st'"
proof -
  have k: "dampingFactor (targetVelocityOf (fst st)) \<noteq> 0"
    by (simp add: dampingFactor_targetVelocity acceleration_def damping_def)
  show ?thesis
    by (simp add: flight_update_def Let_def damp_exponential[OF k])
qed

text \<open>What a frame does to each part of the application.\<close>

lemma animate_parts:
  assumes r: "isRunning app" and a: "animate lib app dt = Some app'"
  shows "time app' = time app + dt
       \<and> (isFocused (focusControls app) \<longrightarrow>
            (focusControls app', camera app')
              = focus_update lib (focusControls app, camera app) (solarSystem app) dt
            \<and> flightControls app' = flightControls app)
       \<and> (\<not> isFocused (focusControls app) \<longrightarrow>
            flight_update (flightControls app, camera app) dt
              = Some (flightControls app', camera app')
            \<and> focusControls app' = focusControls app)
       \<and> updateSolarSystem (solarSystem app) (time app + dt) = Some (solarSystem app')
       \<and> hud app' = hud (updateHud app')"
proof (cases "isFocused (focusControls app)")
  case True
  with r a show ?thesis
    by (auto simp: animate_def updateControls_def updateBodies_def updateHud_def Let_def
        split: option.splits)
next
  case False
  with r a show ?thesis
    by (auto simp: animate_def updateControls_def updateBodies_def updateHud_def Let_def
        split: option.splits)
qed

lemma animate_Some:
  assumes "orbitPeriodsNonzero (solarSystem app)"
  shows "\<exists>app'. animate lib app dt = Some app'"
proof -
  from updateSolarSystem_Some[OF assms, of "time app + dt"]
  obtain ps' where u: "updateSolarSystem (solarSystem app) (time app + dt) = Some ps'" by blast
  from flight_update_Some[of "(flightControls app, camera app)" dt]
  obtain st' where f: "flight_update (flightControls app, camera app) dt = Some st'" by blast
  show ?thesis using u f
    by (simp add: animate_def updateControls_def updateBodies_def Let_def)
qed

lemma orbitPeriodsNonzero_examplePlanets: "orbitPeriodsNonzero examplePlanets"
  by (simp add: orbitPeriodsNonzero_def examplePlanets_def createSolarSystem_def
        createPlanet_def Let_def exampleEarth_def exampleMoon_def)

lemma examplePlanets_unfold:
  "examplePlanets
     = [(createPlanet exampleEarth)\<lparr>moons := Some [createPlanet exampleMoon]\<rparr>]"
  by (simp add: examplePlanets_def createSolarSystem_def exampleEarth_def)

text \<open>
  The example frame: the focus controller moves the camera towards the orbit point of
  the planet's old position; had the bodies been recomputed first, it would have
  moved it towards another point.
\<close>

lemma example_camera_code:
  "vz (cam_position (snd (focus_update exampleLib (focusControls exampleApp, camera exampleApp)
         examplePlanets 1)))
     = 3 + (cos (3 / 10) * 3 - 3) * (1 - exp (- 5))"
  by (simp add: focus_update_def Let_def exampleApp_def exampleFocus_def targetPosition_def
        examplePlanets_unfold lookupBody_def body.truncate_def createPlanet_def exampleEarth_def
        transitionSpeed_def orbitSpeed_def lerpVectors_def addVectors_def vec_def)

lemma example_camera_spec:
  assumes "updateSolarSystem examplePlanets 1 = Some ps1"
  shows "vz (cam_position (snd (focus_update exampleLib (focusControls exampleApp, camera exampleApp)
         ps1 1)))
     = 3 + (sin (1 / 10) * 10 + cos (3 / 10) * 3 - 3) * (1 - exp (- 5))"
proof -
  have h: "hasMesh examplePlanets (PlanetRef 0)"
    unfolding examplePlanets_def
    by (rule hasMesh_createSolarSystem[of _ _ "body.truncate exampleEarth"])
       (simp add: lookupBody_def)
  from step_position[OF assms h]
  have "positionOf ps1 (PlanetRef 0) = Some (vec (10 * cos (1 / 10)) 0 (10 * sin (1 / 10)))"
    by (simp add: spec_position_def parentPosition_def examplePlanets_unfold lookupBody_def
          body.truncate_def createPlanet_def exampleEarth_def orbitOffset_def angularScale_def
          addVectors_zero Let_def)
  then have tp: "targetPosition (focusControls exampleApp) ps1
                   = Some (vec (10 * cos (1 / 10)) 0 (10 * sin (1 / 10)))"
    by (simp add: targetPosition_def exampleApp_def exampleFocus_def positionOf_def)
  show ?thesis
    by (simp add: focus_update_def Let_def tp)
       (simp add: exampleApp_def exampleFocus_def transitionSpeed_def orbitSpeed_def
          lerpVectors_def addVectors_def vec_def mult.commute)
qed

text \<open>
  C1, as the specification states it, fails. In the example frame \<open>animate\<close> leaves
  the camera where the focus controller puts it when it reads the body positions of
  the frame before, and this is not the result of the specified order.
\<close>

theorem animate_controller_reads_old_positions:
  "map_option camera (animate exampleLib exampleApp 1)
     = Some (snd (focus_update exampleLib (focusControls exampleApp, camera exampleApp)
                    (solarSystem exampleApp) 1))
   \<and> animate exampleLib exampleApp 1 \<noteq> animate_spec exampleLib exampleApp 1"
proof -
  have run: "isRunning exampleApp" and foc: "isFocused (focusControls exampleApp)"
    and ss: "solarSystem exampleApp = examplePlanets" and t0: "time exampleApp = 0"
    by (simp_all add: exampleApp_def)
  from updateSolarSystem_Some[OF orbitPeriodsNonzero_examplePlanets, of 1]
  obtain ps1 where u: "updateSolarSystem examplePlanets 1 = Some ps1" by blast
  let ?old = "focus_update exampleLib (focusControls exampleApp, camera exampleApp)
                examplePlanets 1"
  let ?new = "focus_update exampleLib (focusControls exampleApp, camera exampleApp) ps1 1"
  have a: "animate exampleLib exampleApp 1
             = Some (updateHud (exampleApp\<lparr>time := 1, focusControls := fst ?old,
                                  camera := snd ?old, solarSystem := ps1\<rparr>))"
    using run foc ss t0 u
    by (simp add: animate_def updateControls_def updateBodies_def Let_def)
  have s: "animate_spec exampleLib exampleApp 1
             = Some (updateHud (exampleApp\<lparr>time := 1, solarSystem := ps1,
                                  focusControls := fst ?new, camera := snd ?new\<rparr>))"
    using run foc ss t0 u
    by (simp add: animate_spec_def updateControls_def updateBodies_def Let_def)
  have "0 < sin (1 / 10 :: real)"
    using pi_ge_two by (intro sin_gt_zero) simp_all
  moreover have "exp (- 5 :: real) < 1" by simp
  ultimately have "sin (1 / 10 :: real) * 10 * (1 - exp (- 5)) \<noteq> 0" by simp
  then have "vz (cam_position (snd ?old)) \<noteq> vz (cam_position (snd ?new))"
    by (simp add: example_camera_code example_camera_spec[OF u] algebra_simps)
  then have "snd ?old \<noteq> snd ?new" by auto
  then have "animate exampleLib exampleApp 1 \<noteq> animate_spec exampleLib exampleApp 1"
    by (auto simp: a s updateHud_def Let_def dest: arg_cong[where f = camera])
  moreover have "map_option camera (animate exampleLib exampleApp 1) = Some (snd ?old)"
    by (simp add: a updateHud_def Let_def)
  ultimately show ?thesis by (simp add: ss)
qed

text \<open>
  C1, amended. A running frame, on bodies whose orbit periods are not zero, ends, and
  in it: (1) the clock is advanced by the frame delta; (2) the controller that drives
  (the focus controller if focused, else the free-flight controller) is updated, the
  focus controller reading the body positions of the state the frame started from,
  that is those recomputed in the frame before; (3) all body positions and spins are
  recomputed for the new time; (4) the display scalars are derived from the updated
  controller, the updated camera and the recomputed bodies.
\<close>

theorem animate_order:
  assumes "isRunning app" and "orbitPeriodsNonzero (solarSystem app)"
  shows "\<exists>app'. animate lib app dt = Some app'
       \<and> time app' = time app + dt
       \<and> (isFocused (focusControls app) \<longrightarrow>
            (focusControls app', camera app')
              = focus_update lib (focusControls app, camera app) (solarSystem app) dt
            \<and> flightControls app' = flightControls app)
       \<and> (\<not> isFocused (focusControls app) \<longrightarrow>
            flight_update (flightControls app, camera app) dt
              = Some (flightControls app', camera app')
            \<and> focusControls app' = focusControls app)
       \<and> updateSolarSystem (solarSystem app) (time app + dt) = Some (solarSystem app')
       \<and> hud_speed (hud app')
           = (if isFocused (focusControls app') then 0 else getSpeed (flightControls app'))
       \<and> hud_target (hud app') = targetPlanet (focusControls app')
       \<and> hud_distance (hud app')
           = (if isFocused (focusControls app')
              then getDistanceToTarget (focusControls app') (camera app') (solarSystem app')
              else 0)"
proof -
  from animate_Some[OF assms(2), of lib dt]
  obtain app' where a: "animate lib app dt = Some app'" by blast
  from animate_parts[OF assms(1) a] show ?thesis using a
    by (auto simp: updateHud_def Let_def)
qed

theorem animate_order_witness:
  "isRunning exampleApp \<and> orbitPeriodsNonzero (solarSystem exampleApp)
   \<and> isFocused (focusControls exampleApp)
   \<and> (\<exists>app'. animate exampleLib exampleApp 1 = Some app'
         \<and> time app' = 1
         \<and> (focusControls app', camera app')
             = focus_update exampleLib (focusControls exampleApp, camera exampleApp)
                 (solarSystem exampleApp) 1
         \<and> updateSolarSystem (solarSystem exampleApp) 1 = Some (solarSystem app'))"
proof -
  have h1: "isRunning exampleApp" by (simp add: exampleApp_def)
  have h2: "orbitPeriodsNonzero (solarSystem exampleApp)"
    using orbitPeriodsNonzero_examplePlanets by (simp add: exampleApp_def)
  have h3: "isFocused (focusControls exampleApp)" by (simp add: exampleApp_def)
  have t: "time exampleApp = 0" by (simp add: exampleApp_def)
  from animate_order[OF h1 h2, of exampleLib 1] h3 t
  have "\<exists>app'. animate exampleLib exampleApp 1 = Some app'
         \<and> time app' = 1
         \<and> (focusControls app', camera app')
             = focus_update exampleLib (focusControls exampleApp, camera exampleApp)
                 (solarSystem exampleApp) 1
         \<and> updateSolarSystem (solarSystem exampleApp) 1 = Some (solarSystem app')"
    by auto
  with h1 h2 h3 show ?thesis by simp
qed

end
